theory Spec2Isabelle
  imports Complex_Main "HOL-Library.Word"
begin

unbundle bit_operations_syntax

section \<open>JavaScript values used by the history store\<close>

text \<open>
  A JavaScript \<open>number\<close> is a double: a finite value (only rational values matter here),
  \<open>NaN\<close> or one of the two infinities.  Work identifiers and page numbers arrive as such
  numbers, so negative and fractional values are inhabitants of the type.
\<close>

datatype number = Num rat | NaN | PosInfinity | NegInfinity

definition MAX_SAFE_INTEGER :: int where
  "MAX_SAFE_INTEGER = 2 ^ 53 - 1"

text \<open>\<open>Number.isSafeInteger(num)\<close>: an integer whose magnitude is at most \<open>2^53 - 1\<close>.\<close>

fun isSafeInteger :: "number \<Rightarrow> bool" where
  "isSafeInteger (Num q) = (q = of_int \<lfloor>q\<rfloor> \<and> \<bar>\<lfloor>q\<rfloor>\<bar> \<le> MAX_SAFE_INTEGER)"
| "isSafeInteger NaN = False"
| "isSafeInteger PosInfinity = False"
| "isSafeInteger NegInfinity = False"

text \<open>The comparison \<open>num >= 0\<close>.\<close>

fun geZero :: "number \<Rightarrow> bool" where
  "geZero (Num q) = (0 \<le> q)"
| "geZero NaN = False"
| "geZero PosInfinity = True"
| "geZero NegInfinity = False"

text \<open>The index denoted by a number that has passed validation.\<close>

fun toNat :: "number \<Rightarrow> nat" where
  "toNat (Num q) = nat \<lfloor>q\<rfloor>"
| "toNat NaN = 0"
| "toNat PosInfinity = 0"
| "toNat NegInfinity = 0"

datatype error =
    InvalidNumber number    \<comment> \<open>\<open>Invalid number:${num}, must be a non-negative integer.\<close>\<close>
  | TypeError string
  | Error string
  | RangeError string
  | RequestError string int  \<comment> \<open>\<open>new RequestError(url, status)\<close>\<close>
  | CancelError

text \<open>
  Modelled from the spec: \<open>logger.throw\<close> (the logger module is not among the sources)
  raises a fatal error carrying the message; here the offending number stands for the message.
\<close>

definition logger_throw :: "number \<Rightarrow> error + unit" where
  "logger_throw num = Inl (InvalidNumber num)"

definition throwIfInvalidNumber :: "number \<Rightarrow> error + unit" where
  "throwIfInvalidNumber num =
     (if isSafeInteger num \<and> geZero num then Inr () else logger_throw num)"


section \<open>Batch download: data\<close>

text \<open>A rejection reason is any value: an error object, a string, or something else.\<close>

datatype reason = ReasonError error | ReasonString string | ReasonOther

text \<open>\<open>reason instanceof RequestError && reason.status === 429\<close>.\<close>

fun is429 :: "reason \<Rightarrow> bool" where
  "is429 (ReasonError (RequestError url status)) = (status = 429)"
| "is429 _ = False"

text \<open>
  Artwork metadata is an open record; \<open>tags = None\<close> stands for a metadata object without a
  \<open>tags\<close> property or whose \<open>tags\<close> is not an array.
\<close>

record Meta =
  tags :: "string list option"

record YieldArtworkId =
  total :: int
  page :: int
  avaliable :: "string list"
  invalid :: "string list"
  unavaliable :: "string list"

datatype FilterType = Include | Exclude

text \<open>A filter function returns a boolean, or throws (\<open>None\<close>).\<close>

record 'a FilterSpec =
  filterId :: string
  filterType :: FilterType
  name :: string
  checked :: bool
  fn :: "'a Meta_scheme \<Rightarrow> bool option"

text \<open>
  \<open>downloaderConfig\<close>.  Of \<open>pageMatch\<close> only the generator ids of each entry are kept; the
  generators, \<open>parseMetaByArtworkId\<close> and \<open>downloadByArtworkId\<close> are the environment.
\<close>

record 'a BatchDownloadConfig =
  filters :: "'a FilterSpec list"
  enableTagFilter :: bool
  filterWhenGenerateIngPage :: bool
  pageMatch :: "string list list"

record FailedItem =
  failedId :: string
  reason :: reason

text \<open>A log entry is the type and the arguments \<open>writeLog\<close> was called with.\<close>

datatype LogItem =
    Info string
  | Add string
  | Complete string
  | Fail string reason
  | LogError error

datatype promise = Pending | Resolved | Rejected reason

datatype signal = NotAborted | Aborted reason

text \<open>
  The suspension points of \<open>batchDownload\<close>/\<open>dispatchDownload\<close>: each constructor is one
  \<open>await\<close>, with the loop variables that are live across it (the current id, the ids of
  the batch still to be visited).
\<close>

datatype 'a pc =
    Idle
  | AwaitNext                                     \<comment> \<open>\<open>Promise.race([generator.next(), waitUntilDownloadComplete])\<close>\<close>
  | AwaitEmptySleep                               \<comment> \<open>\<open>Promise.race([sleep(1500), ...])\<close>\<close>
  | AwaitCooldown string "string list"            \<comment> \<open>\<open>Promise.race([sleep(30000), ...])\<close>\<close>
  | AwaitParse string "string list"               \<comment> \<open>\<open>parseMetaByArtworkId(id).catch(...)\<close>\<close>
  | AwaitValidity string "'a Meta_scheme" "string list"  \<comment> \<open>\<open>checkValidity(artworkMeta)\<close>\<close>
  | AwaitGroup "string list"                      \<comment> \<open>\<open>Promise.race([...dlPromise, ...])\<close>\<close>
  | AwaitDelay "string list"                      \<comment> \<open>\<open>Promise.race([sleep(1000), ...])\<close>\<close>
  | AwaitReturn                                   \<comment> \<open>\<open>return waitUntilDownloadComplete\<close>, awaited by \<open>batchDownload\<close>\<close>
  | Completed
  | Errored reason

text \<open>
  The variables of the \<open>defineBatchDownload\<close> closure and of the running
  \<open>dispatchDownload\<close>, followed by what the environment holds: the download promises not
  yet settled (\<open>inflight\<close>, a handle and the artwork id), and the calls made so far to
  \<open>downloadByArtworkId\<close> (\<open>dispatched\<close>: artwork id and task id, the handle of a call is its
  position), \<open>onDownloadAbort\<close> (\<open>abortCalls\<close>), \<open>sleep\<close> (\<open>sleeps\<close>) and
  \<open>generator.return\<close>.  The last field is a history variable: what the four stores held
  (\<open>artworkCount\<close> and the three lengths) at the moment the future of the run was resolved.
\<close>

record 'a BatchState =
  artworkCount :: "int option"
  successd :: "string list"
  failed :: "FailedItem list"
  excluded :: "string list"
  downloading :: bool
  logItems :: "LogItem list"
  tasks :: "string list"
  controller :: "signal option"
  listening :: bool
  waitUntilDownloadComplete :: "promise option"
  pageStart :: int
  pageEnd :: int
  downloadAllPages :: bool
  blacklistTag :: "string list"
  whitelistTag :: "string list"
  includeFilters :: "('a Meta_scheme \<Rightarrow> bool option) list"
  excludeFilters :: "('a Meta_scheme \<Rightarrow> bool option) list"
  dlPromise :: "nat list"
  status429 :: bool
  pc :: "'a pc"
  inflight :: "(nat \<times> string) list"
  dispatched :: "(string \<times> string) list"
  abortCalls :: "string list list"
  sleeps :: "int list"
  generatorReturned :: bool
  resolvedAt :: "(int option \<times> nat \<times> nat \<times> nat) option"

text \<open>The state right after \<open>defineBatchDownload\<close>, before any subscription has fired.\<close>

definition initialState :: "'a BatchState" where
  "initialState =
     \<lparr>artworkCount = Some 0, successd = [], failed = [], excluded = [], downloading = False,
      logItems = [], tasks = [], controller = None, listening = False,
      waitUntilDownloadComplete = None, pageStart = 0, pageEnd = 0, downloadAllPages = True,
      blacklistTag = [], whitelistTag = [], includeFilters = [], excludeFilters = [],
      dlPromise = [], status429 = False, pc = Idle, inflight = [], dispatched = [],
      abortCalls = [], sleeps = [], generatorReturned = False, resolvedAt = None\<rparr>"

section \<open>Batch download: option subscriptions\<close>

definition watchPageRange :: "bool \<Rightarrow> int \<Rightarrow> int \<Rightarrow> 'a BatchState \<Rightarrow> 'a BatchState" where
  "watchPageRange allPages start end' s =
     s\<lparr>downloadAllPages := allPages, pageStart := start, pageEnd := end'\<rparr>"

definition pushFilter :: "'a BatchDownloadConfig \<Rightarrow> string \<Rightarrow> 'a BatchState \<Rightarrow> 'a BatchState" where
  "pushFilter cfg i s =
     (case List.find (\<lambda>f. filterId f = i) (filters cfg) of
        None \<Rightarrow> s
      | Some f \<Rightarrow>
          if filterType f = Include
          then s\<lparr>includeFilters := includeFilters s @ [fn f]\<rparr>
          else s\<lparr>excludeFilters := excludeFilters s @ [fn f]\<rparr>)"

text \<open>The subscriber of \<open>selectedFilters\<close>; \<open>None\<close> is a falsy \<open>selected\<close>.\<close>

definition selectFilters ::
  "'a BatchDownloadConfig \<Rightarrow> string list option \<Rightarrow> 'a BatchState \<Rightarrow> 'a BatchState" where
  "selectFilters cfg selected s =
     (case selected of
        None \<Rightarrow> s
      | Some ids \<Rightarrow> fold (pushFilter cfg) ids (s\<lparr>includeFilters := [], excludeFilters := []\<rparr>))"

definition setBlacklistTag :: "string list \<Rightarrow> 'a BatchState \<Rightarrow> 'a BatchState" where
  "setBlacklistTag val s = s\<lparr>blacklistTag := val\<rparr>"

definition setWhitelistTag :: "string list \<Rightarrow> 'a BatchState \<Rightarrow> 'a BatchState" where
  "setWhitelistTag val s = s\<lparr>whitelistTag := val\<rparr>"

section \<open>Batch download: filter pipeline\<close>

text \<open>\<open>list.some((tag) => partialMeta.tags.includes(tag))\<close>.\<close>

definition someIncluded :: "string list \<Rightarrow> string list \<Rightarrow> bool" where
  "someIncluded list metaTags = list_ex (\<lambda>tag. List.member metaTags tag) list"

definition filterTag :: "'a BatchState \<Rightarrow> 'a Meta_scheme \<Rightarrow> bool" where
  "filterTag s partialMeta =
     (case tags partialMeta of
        None \<Rightarrow> True
      | Some metaTags \<Rightarrow>
          if whitelistTag s \<noteq> [] then someIncluded (whitelistTag s) metaTags
          else if blacklistTag s \<noteq> [] then \<not> someIncluded (blacklistTag s) metaTags
          else True)"

text \<open>
  One of the two loops over filter functions: \<open>Some True\<close> as soon as a function answers
  true, \<open>Some False\<close> if none does, \<open>None\<close> if a function throws before that.
\<close>

fun firstTrue :: "('m \<Rightarrow> bool option) list \<Rightarrow> 'm \<Rightarrow> bool option" where
  "firstTrue [] m = Some False"
| "firstTrue (f # fs) m =
     (case f m of
        None \<Rightarrow> None
      | Some b \<Rightarrow> if b then Some True else firstTrue fs m)"

definition checkValidity :: "'a BatchDownloadConfig \<Rightarrow> 'a BatchState \<Rightarrow> 'a Meta_scheme \<Rightarrow> bool" where
  "checkValidity cfg s partialMeta =
     (if enableTagFilter cfg \<and> \<not> filterTag s partialMeta then False
      else if includeFilters s = [] then False
      else case firstTrue (excludeFilters s) partialMeta of
             None \<Rightarrow> False
           | Some isExcluded \<Rightarrow>
               if isExcluded then False
               else (case firstTrue (includeFilters s) partialMeta of
                       None \<Rightarrow> False
                     | Some isValid \<Rightarrow> isValid))"

section \<open>Batch download: stores\<close>

definition writeLog :: "LogItem \<Rightarrow> 'a BatchState \<Rightarrow> 'a BatchState" where
  "writeLog item s = s\<lparr>logItems := logItems s @ [item]\<rparr>"

definition checkIfDownloadCompleted :: "'a BatchState \<Rightarrow> bool" where
  "checkIfDownloadCompleted s =
     (artworkCount s =
        Some (int (length (successd s) + length (failed s) + length (excluded s))))"

text \<open>\<open>downloadCompleted\<close> and \<open>downloadAbort\<close> settle the future of the run if it is pending.\<close>

definition downloadCompleted :: "'a BatchState \<Rightarrow> 'a BatchState" where
  "downloadCompleted s =
     (case waitUntilDownloadComplete s of
        Some Pending \<Rightarrow>
          s\<lparr>waitUntilDownloadComplete := Some Resolved,
            resolvedAt :=
              Some (artworkCount s, length (successd s), length (failed s), length (excluded s))\<rparr>
      | _ \<Rightarrow> s)"

definition downloadAbort :: "reason \<Rightarrow> 'a BatchState \<Rightarrow> 'a BatchState" where
  "downloadAbort r s =
     (case waitUntilDownloadComplete s of
        Some Pending \<Rightarrow> s\<lparr>waitUntilDownloadComplete := Some (Rejected r)\<rparr>
      | _ \<Rightarrow> s)"

text \<open>
  The subscriber of the derived store, \<open>isDone && downloadCompleted?.()\<close>, run after every
  update of one of the four stores.  (The derived store reports changes of its value only;
  resolving a settled future again does nothing, so this makes no difference.)
\<close>

definition subscribeCompleted :: "'a BatchState \<Rightarrow> 'a BatchState" where
  "subscribeCompleted s = (if checkIfDownloadCompleted s then downloadCompleted s else s)"

definition setArtworkCount :: "int \<Rightarrow> 'a BatchState \<Rightarrow> 'a BatchState" where
  "setArtworkCount num s = subscribeCompleted (s\<lparr>artworkCount := Some num\<rparr>)"

definition addSuccessd :: "string \<Rightarrow> 'a BatchState \<Rightarrow> 'a BatchState" where
  "addSuccessd i s =
     subscribeCompleted (writeLog (Complete i) (s\<lparr>successd := successd s @ [i]\<rparr>))"

definition logFail :: "FailedItem \<Rightarrow> 'a BatchState \<Rightarrow> 'a BatchState" where
  "logFail item s =
     (case reason item of
        ReasonOther \<Rightarrow> s
      | _ \<Rightarrow> writeLog (Fail (failedId item) (reason item)) s)"

definition addFailed :: "FailedItem \<Rightarrow> 'a BatchState \<Rightarrow> 'a BatchState" where
  "addFailed item s = subscribeCompleted (logFail item (s\<lparr>failed := failed s @ [item]\<rparr>))"

text \<open>
  The array forms.  \<open>addFailed\<close> reads the last element of the array; its only call with an
  array is guarded by \<open>unavaliable.length\<close>, so the array is never empty there (on an empty
  array the source would fail reading \<open>lastItem.id\<close> before the store is updated).
\<close>

definition addFailedAll :: "FailedItem list \<Rightarrow> 'a BatchState \<Rightarrow> 'a BatchState" where
  "addFailedAll items s =
     (case rev items of
        [] \<Rightarrow> s
      | lastItem # _ \<Rightarrow> subscribeCompleted (logFail lastItem (s\<lparr>failed := failed s @ items\<rparr>)))"

fun showNat :: "nat \<Rightarrow> string" where
  "showNat n =
     (if n < 10 then [char_of (48 + n)]
      else showNat (n div 10) @ [char_of (48 + n mod 10)])"

declare showNat.simps [simp del]

definition addExcluded :: "string \<Rightarrow> 'a BatchState \<Rightarrow> 'a BatchState" where
  "addExcluded i s =
     subscribeCompleted
       (writeLog (Info (i @ '' was excluded...'')) (s\<lparr>excluded := excluded s @ [i]\<rparr>))"

definition addExcludedAll :: "string list \<Rightarrow> 'a BatchState \<Rightarrow> 'a BatchState" where
  "addExcludedAll ids s =
     subscribeCompleted
       (writeLog (Info (showNat (length ids) @ '' was excluded...''))
          (s\<lparr>excluded := excluded s @ ids\<rparr>))"

text \<open>
  \<open>reset\<close>.  After \<open>artworkCount.set(null)\<close> the derived value is false during the other
  updates, so no subscriber call resolves anything.
\<close>

definition reset :: "'a BatchState \<Rightarrow> 'a BatchState" where
  "reset s =
     writeLog (Info ''Reset store.'')
       (s\<lparr>artworkCount := None, successd := [], failed := [], excluded := [], tasks := [],
          controller := None, listening := False, waitUntilDownloadComplete := None\<rparr>)"

section \<open>Batch download: cancellation and errors\<close>

definition signalAborted :: "'a BatchState \<Rightarrow> bool" where
  "signalAborted s = (case controller s of Some (Aborted r) \<Rightarrow> True | _ \<Rightarrow> False)"

definition signalReason :: "'a BatchState \<Rightarrow> reason" where
  "signalReason s = (case controller s of Some (Aborted r) \<Rightarrow> r | _ \<Rightarrow> ReasonOther)"

text \<open>
  The listener added by \<open>dispatchDownload\<close>: \<open>downloadAbort?.(signal.reason)\<close>, then
  \<open>downloaderConfig.onDownloadAbort(tasks)\<close>.
\<close>

definition abortListener :: "'a BatchState \<Rightarrow> 'a BatchState" where
  "abortListener s =
     (let s1 = downloadAbort (signalReason s) s
      in s1\<lparr>abortCalls := abortCalls s1 @ [tasks s1]\<rparr>)"

text \<open>
  \<open>controller.abort(r)\<close>: the first call on a controller aborts its signal and fires the
  listener (registered with \<open>once: true\<close>); any later call does nothing.
\<close>

definition controllerAbort :: "reason \<Rightarrow> 'a BatchState \<Rightarrow> 'a BatchState" where
  "controllerAbort r s =
     (case controller s of
        Some NotAborted \<Rightarrow>
          (let s1 = s\<lparr>controller := Some (Aborted r)\<rparr>
           in if listening s1 then abortListener (s1\<lparr>listening := False\<rparr>) else s1)
      | _ \<Rightarrow> s)"

text \<open>\<open>abort\<close>: \<open>controller && controller.abort(new CancelError())\<close>.\<close>

definition abort :: "'a BatchState \<Rightarrow> 'a BatchState" where
  "abort s = controllerAbort (ReasonError CancelError) s"

text \<open>
  The \<open>catch\<close> block of \<open>batchDownload\<close> followed by \<open>setDownloading(false)\<close>;
  \<open>hasGenerator\<close> tells whether \<open>getGenerator\<close> had returned.
\<close>

definition catchBlock :: "bool \<Rightarrow> reason \<Rightarrow> 'a BatchState \<Rightarrow> 'a BatchState" where
  "catchBlock hasGenerator err s =
     (let s1 = (if hasGenerator then s\<lparr>generatorReturned := True\<rparr> else s);
          s2 = (if \<not> signalAborted s1 then controllerAbort err s1 else s1);
          s3 = (case err of ReasonError e \<Rightarrow> writeLog (LogError e) s2 | _ \<Rightarrow> s2)
      in s3\<lparr>downloading := False, pc := Errored err\<rparr>)"

text \<open>\<open>failedHanlderFactory(id)\<close> applied to a rejection reason.\<close>

definition failedHanlder :: "string \<Rightarrow> reason \<Rightarrow> 'a BatchState \<Rightarrow> 'a BatchState" where
  "failedHanlder i r s =
     (if \<not> signalAborted s
      then (let s1 = addFailed \<lparr>failedId = i, reason = r\<rparr> s
            in if is429 r then s1\<lparr>status429 := True\<rparr> else s1)
      else s)"

section \<open>Batch download: the dispatch loop\<close>

definition THRESHOLD :: nat where
  "THRESHOLD = 5"

text \<open>\<open>id + '_' + Math.random().toString(36).slice(2)\<close>, the random string being \<open>r\<close>.\<close>

definition generateTaskID :: "string \<Rightarrow> string \<Rightarrow> string" where
  "generateTaskID r i = i @ ''_'' @ r"

text \<open>Calling \<open>sleep(ms)\<close>.\<close>

definition sleep :: "int \<Rightarrow> 'a BatchState \<Rightarrow> 'a BatchState" where
  "sleep ms s = s\<lparr>sleeps := sleeps s @ [ms]\<rparr>"

text \<open>
  The head of \<open>for (const id of avaliable)\<close> with the ids still to visit: the cooldown
  check, then the call of \<open>parseMetaByArtworkId\<close>; with no id left, the next
  \<open>generator.next()\<close>.
\<close>

fun forLoop :: "string list \<Rightarrow> 'a BatchState \<Rightarrow> 'a BatchState" where
  "forLoop [] s = s\<lparr>pc := AwaitNext\<rparr>"
| "forLoop (i # rest) s =
     (if status429 s
      then (sleep 30000
              (writeLog (LogError (Error ''Http status: 429, wait for 30 seconds.'')) s))
             \<lparr>pc := AwaitCooldown i rest\<rparr>
      else s\<lparr>pc := AwaitParse i rest\<rparr>)"

text \<open>
  From \<open>writeLog('Add', id)\<close> to the wait that follows the dispatch.  \<open>rnd\<close> is the random
  string of this call; the new download promise gets the next handle.
\<close>

definition dispatch :: "string \<Rightarrow> string \<Rightarrow> string list \<Rightarrow> 'a BatchState \<Rightarrow> 'a BatchState" where
  "dispatch rnd i rest s =
     (let s1 = writeLog (Add i) s;
          taskId = generateTaskID rnd i;
          h = length (dispatched s1);
          s2 = s1\<lparr>dispatched := dispatched s1 @ [(i, taskId)],
                  inflight := inflight s1 @ [(h, i)],
                  tasks := tasks s1 @ [taskId],
                  dlPromise := dlPromise s1 @ [h]\<rparr>
      in if length (dlPromise s2) \<ge> THRESHOLD
         then s2\<lparr>pc := AwaitGroup rest\<rparr>
         else (sleep 1000 s2)\<lparr>pc := AwaitDelay rest\<rparr>)"

text \<open>The body of the \<open>while\<close> loop for a batch the generator has yielded.\<close>

definition onBatch :: "YieldArtworkId \<Rightarrow> 'a BatchState \<Rightarrow> 'a BatchState" where
  "onBatch b s =
     (if signalAborted s then catchBlock True (signalReason s) s
      else
        (let s1 = setArtworkCount (total b) s;
             s2 = (if invalid b \<noteq> [] then addExcludedAll (invalid b) s1 else s1);
             s3 = (if unavaliable b \<noteq> []
                   then addFailedAll
                          (map (\<lambda>i. \<lparr>failedId = i, reason = ReasonString ''Masked.''\<rparr>)
                             (unavaliable b)) s2
                   else s2)
         in if avaliable b = [] then (sleep 1500 s3)\<lparr>pc := AwaitEmptySleep\<rparr>
            else forLoop (avaliable b) s3))"

text \<open>
  After \<open>await parseMetaByArtworkId(id).catch(failedHanlderFactory(id))\<close>: the parser has
  returned a metadata object, or it has failed, the handler has run and \<open>artworkMeta\<close> is
  \<open>undefined\<close>.
\<close>

definition afterParseOk ::
  "'a BatchDownloadConfig \<Rightarrow> string \<Rightarrow> 'a Meta_scheme \<Rightarrow> string \<Rightarrow> string list \<Rightarrow>
   'a BatchState \<Rightarrow> 'a BatchState" where
  "afterParseOk cfg rnd artworkMeta i rest s =
     (if signalAborted s then catchBlock True (signalReason s) s
      else if \<not> filterWhenGenerateIngPage cfg then s\<lparr>pc := AwaitValidity i artworkMeta rest\<rparr>
      else dispatch rnd i rest s)"

definition afterParseFail :: "reason \<Rightarrow> string \<Rightarrow> string list \<Rightarrow> 'a BatchState \<Rightarrow> 'a BatchState" where
  "afterParseFail r i rest s =
     (let s1 = failedHanlder i r s
      in if signalAborted s1 then catchBlock True (signalReason s1) s1
         else forLoop rest s1)"

text \<open>After \<open>await checkValidity(artworkMeta)\<close>.\<close>

definition afterValidity ::
  "'a BatchDownloadConfig \<Rightarrow> string \<Rightarrow> 'a Meta_scheme \<Rightarrow> string \<Rightarrow> string list \<Rightarrow>
   'a BatchState \<Rightarrow> 'a BatchState" where
  "afterValidity cfg rnd artworkMeta i rest s =
     (if \<not> checkValidity cfg s artworkMeta then forLoop rest (addExcluded i s)
      else dispatch rnd i rest s)"

text \<open>
  What follows a wait that races a timer or the download group against the future of the
  run, when the race resolves.
\<close>

definition resume :: "'a BatchState \<Rightarrow> 'a BatchState option" where
  "resume s =
     (case pc s of
        AwaitEmptySleep \<Rightarrow> Some (s\<lparr>pc := AwaitNext\<rparr>)
      | AwaitCooldown i rest \<Rightarrow> Some (s\<lparr>status429 := False, pc := AwaitParse i rest\<rparr>)
      | AwaitGroup rest \<Rightarrow> Some (forLoop rest (s\<lparr>dlPromise := []\<rparr>))
      | AwaitDelay rest \<Rightarrow> Some (forLoop rest s)
      | _ \<Rightarrow> None)"

text \<open>\<open>writeLog('Info', 'Download complete.')\<close> and \<open>setDownloading(false)\<close>.\<close>

definition complete :: "'a BatchState \<Rightarrow> 'a BatchState" where
  "complete s = (writeLog (Info ''Download complete.'') s)\<lparr>downloading := False, pc := Completed\<rparr>"

text \<open>
  A download promise settles: it leaves the pending ones.  Its handlers then run:
  \<open>handleSucccess\<close> or the failed handler, and \<open>removeTask\<close>, which looks in \<open>tasks\<close> for
  an entry equal to the artwork id (\<open>tasks.findIndex((storeId) => storeId === id)\<close>) and
  splices it out.
\<close>

definition settle :: "nat \<Rightarrow> 'a BatchState \<Rightarrow> 'a BatchState" where
  "settle h s = s\<lparr>inflight := filter (\<lambda>e. fst e \<noteq> h) (inflight s)\<rparr>"

definition removeTask :: "string \<Rightarrow> 'a BatchState \<Rightarrow> 'a BatchState" where
  "removeTask i s = s\<lparr>tasks := remove1 i (tasks s)\<rparr>"

definition handleSucccess :: "string \<Rightarrow> 'a BatchState \<Rightarrow> 'a BatchState" where
  "handleSucccess i s = (if \<not> signalAborted s then addSuccessd i s else s)"

section \<open>Batch download: starting a run\<close>

definition getGenerator :: "'a BatchDownloadConfig \<Rightarrow> string \<Rightarrow> 'a BatchState \<Rightarrow> error + unit" where
  "getGenerator cfg fnId s =
     (if \<not> list_ex (\<lambda>ids. List.member ids fnId) (pageMatch cfg)
      then Inl (Error (''Invalid generator id: '' @ fnId))
      else if \<not> downloadAllPages s \<and> pageEnd s < pageStart s
      then Inl (Error ''End page must not be less than the start page.'')
      else Inr ())"

text \<open>The start of \<open>dispatchDownload\<close>, up to the first \<open>generator.next()\<close>.\<close>

definition dispatchDownload :: "'a BatchState \<Rightarrow> 'a BatchState" where
  "dispatchDownload s =
     s\<lparr>waitUntilDownloadComplete := Some Pending, resolvedAt := None, listening := True,
       dlPromise := [], status429 := False, pc := AwaitNext\<rparr>"

text \<open>
  \<open>batchDownload\<close> up to its first suspension.  The first component is the exception the
  call fails with, if any: \<open>setDownloading(true)\<close> throws when the store already holds
  \<open>true\<close>, and leaves the store as it is.
\<close>

definition batchDownload ::
  "'a BatchDownloadConfig \<Rightarrow> string \<Rightarrow> 'a BatchState \<Rightarrow> error option \<times> 'a BatchState" where
  "batchDownload cfg fnId s =
     (if downloading s then (Some (Error ''Already downloading.''), s)
      else
        (let s1 = writeLog (Info ''Start download...'') (s\<lparr>downloading := True\<rparr>);
             s2 = reset s1;
             s3 = s2\<lparr>controller := Some NotAborted\<rparr>
         in case getGenerator cfg fnId s3 of
              Inl e \<Rightarrow> (None, catchBlock False (ReasonError e) s3)
            | Inr _ \<Rightarrow> (None, dispatchDownload s3)))"

section \<open>Batch download: the run as a transition system\<close>

text \<open>
  What the environment does to a run: the generator answers \<open>next()\<close>, the metadata parser
  or the validity check returns, a timer or a race ends, a download settles, the user aborts.
\<close>

datatype 'a event =
    GenYield YieldArtworkId
  | GenDone
  | GenThrow reason
  | ParseOk "'a Meta_scheme" string    \<comment> \<open>with the random string of the dispatch that may follow\<close>
  | ParseFail reason
  | ValidityChecked string             \<comment> \<open>with the random string of the dispatch that may follow\<close>
  | TimerFired
  | GroupSettled
  | CompletionObserved
  | DownloadOk nat
  | DownloadFail nat reason
  | AbortRequested

definition groupSettled :: "'a BatchState \<Rightarrow> bool" where
  "groupSettled s = list_ex (\<lambda>h. map_of (inflight s) h = None) (dlPromise s)"

text \<open>The run is suspended in a wait that the future of the run takes part in.\<close>

fun racesCompletion :: "'a pc \<Rightarrow> bool" where
  "racesCompletion AwaitNext = True"
| "racesCompletion AwaitEmptySleep = True"
| "racesCompletion (AwaitCooldown i rest) = True"
| "racesCompletion (AwaitGroup rest) = True"
| "racesCompletion (AwaitDelay rest) = True"
| "racesCompletion AwaitReturn = True"
| "racesCompletion _ = False"

fun sleeping :: "'a pc \<Rightarrow> bool" where
  "sleeping AwaitEmptySleep = True"
| "sleeping (AwaitCooldown i rest) = True"
| "sleeping (AwaitDelay rest) = True"
| "sleeping _ = False"

text \<open>
  One step: the event, if it can happen in the state (\<open>None\<close> otherwise), and everything the
  program does until it suspends again (the code runs on one thread, so what lies between
  two \<open>await\<close>s is not interleaved with anything).
  \<^item> The answer of the generator decides the race at the head of the \<open>while\<close> loop.  It
    can do so even when the future of the run is settled: the result of a synchronous
    generator comes first in the array given to \<open>Promise.race\<close>.
  \<^item> \<open>CompletionObserved\<close>: the future of the run decides the wait.  Resolved, the wait
    ends and the loop goes on (at the head of the \<open>while\<close> loop \<open>result\<close> is then
    \<open>undefined\<close> and the loop is left); rejected, the \<open>await\<close> throws into the \<open>catch\<close>
    block of \<open>batchDownload\<close>.  The waits for the metadata and for the validity check do
    not race the future.
  \<^item> \<open>TimerFired\<close>: a \<open>sleep\<close> ends the wait; it cannot if the future was settled before.
  \<^item> \<open>GroupSettled\<close>: a download of the group, settled, ends the group wait.
  \<^item> \<open>DownloadOk\<close>, \<open>DownloadFail\<close>: a pending download promise settles and its handlers
    run.
\<close>

definition step ::
  "'a BatchDownloadConfig \<Rightarrow> 'a event \<Rightarrow> 'a BatchState \<Rightarrow> 'a BatchState option" where
  "step cfg e s =
     (case e of
        GenYield b \<Rightarrow> (case pc s of AwaitNext \<Rightarrow> Some (onBatch b s) | _ \<Rightarrow> None)
      | GenDone \<Rightarrow> (case pc s of AwaitNext \<Rightarrow> Some (s\<lparr>pc := AwaitReturn\<rparr>) | _ \<Rightarrow> None)
      | GenThrow r \<Rightarrow> (case pc s of AwaitNext \<Rightarrow> Some (catchBlock True r s) | _ \<Rightarrow> None)
      | ParseOk artworkMeta rnd \<Rightarrow>
          (case pc s of
             AwaitParse i rest \<Rightarrow> Some (afterParseOk cfg rnd artworkMeta i rest s)
           | _ \<Rightarrow> None)
      | ParseFail r \<Rightarrow>
          (case pc s of AwaitParse i rest \<Rightarrow> Some (afterParseFail r i rest s) | _ \<Rightarrow> None)
      | ValidityChecked rnd \<Rightarrow>
          (case pc s of
             AwaitValidity i artworkMeta rest \<Rightarrow> Some (afterValidity cfg rnd artworkMeta i rest s)
           | _ \<Rightarrow> None)
      | TimerFired \<Rightarrow>
          (if sleeping (pc s) \<and> waitUntilDownloadComplete s = Some Pending then resume s
           else None)
      | GroupSettled \<Rightarrow>
          (case pc s of
             AwaitGroup rest \<Rightarrow> if groupSettled s then resume s else None
           | _ \<Rightarrow> None)
      | CompletionObserved \<Rightarrow>
          (case waitUntilDownloadComplete s of
             Some Resolved \<Rightarrow>
               (case pc s of
                  AwaitNext \<Rightarrow> Some (s\<lparr>pc := AwaitReturn\<rparr>)
                | AwaitReturn \<Rightarrow> Some (complete s)
                | _ \<Rightarrow> resume s)
           | Some (Rejected r) \<Rightarrow>
               (if racesCompletion (pc s) then Some (catchBlock True r s) else None)
           | _ \<Rightarrow> None)
      | DownloadOk h \<Rightarrow>
          (case map_of (inflight s) h of
             None \<Rightarrow> None
           | Some i \<Rightarrow> Some (removeTask i (handleSucccess i (settle h s))))
      | DownloadFail h r \<Rightarrow>
          (case map_of (inflight s) h of
             None \<Rightarrow> None
           | Some i \<Rightarrow> Some (removeTask i (failedHanlder i r (settle h s))))
      | AbortRequested \<Rightarrow> Some (abort s))"

text \<open>A run: the events in the order they happen.\<close>

fun run :: "'a BatchDownloadConfig \<Rightarrow> 'a event list \<Rightarrow> 'a BatchState \<Rightarrow> 'a BatchState option" where
  "run cfg [] s = Some s"
| "run cfg (e # es) s = (case step cfg e s of None \<Rightarrow> None | Some s' \<Rightarrow> run cfg es s')"

section \<open>History store\<close>

type_synonym Uint8Array = "8 word list"

text \<open>
  \<open>HistoryItemBase\<close> with its \<open>page\<close> extension: \<open>HistoryData\<close> carries a page number,
  \<open>HistoryItem\<close> a page bitset.  \<open>None\<close> is an absent (\<open>undefined\<close>) property.
\<close>

record 'p HistoryItemBase =
  pid :: number
  userId :: "number option"
  user :: "string option"
  title :: "string option"
  comment :: "string option"
  tags :: "string list option"
  page :: "'p option"

type_synonym HistoryData = "number HistoryItemBase"
type_synonym HistoryItem = "Uint8Array HistoryItemBase"

text \<open>\<open>{ ...historyData, page: p }\<close>, and with \<open>p = None\<close> the effect of \<open>delete historyData.page\<close>.\<close>

definition withPage :: "'a HistoryItemBase \<Rightarrow> 'b option \<Rightarrow> 'b HistoryItemBase" where
  "withPage d p =
     \<lparr>pid = pid d, userId = userId d, user = user d, title = title d,
      comment = comment d, tags = tags d, page = p\<rparr>"

text \<open>
  The Dexie table \<open>history\<close>, keyed by \<open>pid\<close>, and the in-memory mirror \<open>caches\<close>
  (\<open>Map<number, Uint8Array | null>\<close>), which is \<open>undefined\<close> until the table has been loaded.
\<close>

record HistoryDb =
  history :: "number \<rightharpoonup> HistoryItem"
  caches :: "(number \<rightharpoonup> Uint8Array option) option"

definition emptyDb :: HistoryDb where
  "emptyDb = \<lparr>history = Map.empty, caches = Some Map.empty\<rparr>"

text \<open>The constructor's \<open>this.caches = new Map(datas.map((data) => [data.pid, data.page || null]))\<close>.\<close>

definition loadDb :: "HistoryDb \<Rightarrow> HistoryDb" where
  "loadDb db = db\<lparr>caches := Some (\<lambda>k. map_option page (history db k))\<rparr>"

text \<open>\<open>newArr.set(pageArray)\<close>: copy the source over the front of the target.\<close>

definition typedArraySet :: "Uint8Array \<Rightarrow> Uint8Array \<Rightarrow> Uint8Array" where
  "typedArraySet newArr pageArray = pageArray @ drop (length pageArray) newArr"

text \<open>\<open>arr[byteIndex] |= 1 << bitIndex\<close>.\<close>

definition setBit :: "Uint8Array \<Rightarrow> nat \<Rightarrow> nat \<Rightarrow> Uint8Array" where
  "setBit arr byteIndex bitIndex = arr[byteIndex := (arr ! byteIndex) OR push_bit bitIndex 1]"

definition updatePageArray :: "nat \<Rightarrow> Uint8Array option \<Rightarrow> Uint8Array" where
  "updatePageArray pg pageArray =
     (let byteIndex = pg div 8; bitIndex = pg mod 8 in
      case pageArray of
        None \<Rightarrow> setBit (replicate (byteIndex + 1) 0) byteIndex bitIndex
      | Some arr \<Rightarrow>
          if int byteIndex > int (length arr) - 1
          then setBit (typedArraySet (replicate (byteIndex + 1) 0) arr) byteIndex bitIndex
          else setBit arr byteIndex bitIndex)"

text \<open>\<open>this.history.put(item)\<close>: the record is stored under its own \<open>pid\<close>.\<close>

definition put :: "HistoryItem \<Rightarrow> HistoryDb \<Rightarrow> HistoryDb" where
  "put item db = db\<lparr>history := (history db)(pid item \<mapsto> item)\<rparr>"

text \<open>\<open>this.caches.set(k, v)\<close>: a \<open>TypeError\<close> while \<open>caches\<close> is still \<open>undefined\<close>.\<close>

definition cachesSet :: "number \<Rightarrow> Uint8Array option \<Rightarrow> HistoryDb \<Rightarrow> error + HistoryDb" where
  "cachesSet k v db =
     (case caches db of
        None \<Rightarrow> Inl (TypeError ''Cannot read properties of undefined (reading set)'')
      | Some c \<Rightarrow> Inr (db\<lparr>caches := Some (c(k \<mapsto> v))\<rparr>))"

text \<open>
  \<open>add\<close>.  An exception inside the transaction aborts it, so an \<open>Inl\<close> result leaves the
  store as it was.
\<close>

definition add :: "HistoryData \<Rightarrow> HistoryDb \<Rightarrow> error + HistoryDb" where
  "add historyData db =
     (case throwIfInvalidNumber (pid historyData) of
        Inl e \<Rightarrow> Inl e
      | Inr _ \<Rightarrow>
         (case page historyData of
            Some pg \<Rightarrow>
              (case throwIfInvalidNumber pg of
                 Inl e \<Rightarrow> Inl e
               | Inr _ \<Rightarrow>
                  (case history db (pid historyData) of
                     Some historyItem \<Rightarrow>
                       (case page historyItem of
                          Some arr \<Rightarrow>
                            (let u8arr = updatePageArray (toNat pg) (Some arr) in
                             cachesSet (pid historyData) (Some u8arr)
                               (put (withPage historyData (Some u8arr)) db))
                        | None \<Rightarrow> Inr (put (withPage historyData None) db))
                   | None \<Rightarrow>
                       (let u8arr = updatePageArray (toNat pg) None in
                        cachesSet (pid historyData) (Some u8arr)
                          (put (withPage historyData (Some u8arr)) db))))
          | None \<Rightarrow>
              cachesSet (pid historyData) None (put (withPage historyData None) db)))"

text \<open>
  \<open>bulkAdd\<close>: the mirror is updated record by record (\<open>data.page || null\<close>), then the
  records are written with \<open>bulkPut\<close>.
\<close>

fun cachesSetAll :: "HistoryItem list \<Rightarrow> HistoryDb \<Rightarrow> error + HistoryDb" where
  "cachesSetAll [] db = Inr db"
| "cachesSetAll (d # ds) db =
     (case cachesSet (pid d) (page d) db of
        Inl e \<Rightarrow> Inl e
      | Inr db' \<Rightarrow> cachesSetAll ds db')"

fun bulkPut :: "HistoryItem list \<Rightarrow> HistoryDb \<Rightarrow> HistoryDb" where
  "bulkPut [] db = db"
| "bulkPut (d # ds) db = bulkPut ds (put d db)"

definition bulkAdd :: "HistoryItem list \<Rightarrow> HistoryDb \<Rightarrow> error + HistoryDb" where
  "bulkAdd historyDatas db =
     (case cachesSetAll historyDatas db of
        Inl e \<Rightarrow> Inl e
      | Inr db' \<Rightarrow> Inr (bulkPut historyDatas db'))"

text \<open>
  \<open>has\<close> and \<open>hasPage\<close> accept \<open>number | string\<close>; a string is converted by JavaScript's
  \<open>Number\<close>, which is a parameter of the model.
\<close>

datatype pidArg = PidNumber number | PidString string

fun coercePid :: "(string \<Rightarrow> number) \<Rightarrow> pidArg \<Rightarrow> number" where
  "coercePid Number (PidNumber n) = n"
| "coercePid Number (PidString s) = Number s"

definition has :: "(string \<Rightarrow> number) \<Rightarrow> pidArg \<Rightarrow> HistoryDb \<Rightarrow> error + bool" where
  "has Number p db =
     (let n = coercePid Number p in
      case throwIfInvalidNumber n of
        Inl e \<Rightarrow> Inl e
      | Inr _ \<Rightarrow>
         (case caches db of
            Some c \<Rightarrow> Inr (c n \<noteq> None)
          | None \<Rightarrow> Inr (history db n \<noteq> None)))"

text \<open>\<open>!(byteIndex > arr.length - 1) && (arr[byteIndex] & (1 << bitIndex)) !== 0\<close>.\<close>

definition testBit :: "Uint8Array \<Rightarrow> nat \<Rightarrow> nat \<Rightarrow> bool" where
  "testBit arr byteIndex bitIndex =
     (if int byteIndex > int (length arr) - 1 then False
      else (arr ! byteIndex) AND push_bit bitIndex 1 \<noteq> 0)"

definition hasPage :: "(string \<Rightarrow> number) \<Rightarrow> pidArg \<Rightarrow> number \<Rightarrow> HistoryDb \<Rightarrow> error + bool" where
  "hasPage Number p pg db =
     (let n = coercePid Number p in
      case throwIfInvalidNumber n of
        Inl e \<Rightarrow> Inl e
      | Inr _ \<Rightarrow>
         (case throwIfInvalidNumber pg of
            Inl e \<Rightarrow> Inl e
          | Inr _ \<Rightarrow>
             (let byteIndex = toNat pg div 8; bitIndex = toNat pg mod 8 in
              case caches db of
                Some c \<Rightarrow>
                  (case c n of
                     Some None \<Rightarrow> Inr True
                   | Some (Some cachesData) \<Rightarrow> Inr (testBit cachesData byteIndex bitIndex)
                   | None \<Rightarrow> Inr False)
              | None \<Rightarrow>
                  (case history db n of
                     None \<Rightarrow> Inr False
                   | Some historyItem \<Rightarrow>
                       (case page historyItem of
                          None \<Rightarrow> Inr True
                        | Some arr \<Rightarrow> Inr (testBit arr byteIndex bitIndex))))))"


section \<open>Notions used in the statements\<close>

text \<open>A history record with only the given \<open>pid\<close> and \<open>page\<close>.\<close>

definition historyData :: "number \<Rightarrow> 'p option \<Rightarrow> 'p HistoryItemBase" where
  "historyData n p =
     \<lparr>pid = n, userId = None, user = None, title = None, comment = None, tags = None,
      page = p\<rparr>"




text \<open>
  The first run of a closure: \<open>batchDownload\<close> is called in a state in which nothing is
  running and nothing has been dispatched yet.  The options (filters, tag lists, page
  range) are arbitrary.
\<close>

definition noRunYet :: "'a BatchState \<Rightarrow> bool" where
  "noRunYet s =
     (\<not> downloading s \<and> dlPromise s = [] \<and> sleeps s = [] \<and> inflight s = [] \<and>
      dispatched s = [])"

definition startRun :: "'a BatchDownloadConfig \<Rightarrow> string \<Rightarrow> 'a BatchState \<Rightarrow> 'a BatchState" where
  "startRun cfg fnId s = snd (batchDownload cfg fnId s)"

text \<open>The stores satisfied the completion condition when the future of the run was resolved.\<close>

definition resolvedOnEquality :: "'a BatchState \<Rightarrow> bool" where
  "resolvedOnEquality s =
     (case resolvedAt s of
        None \<Rightarrow> False
      | Some (c, n1, n2, n3) \<Rightarrow> c = Some (int (n1 + n2 + n3)))"

text \<open>
  The invariants of a run.  While the future is pending the completion condition is false;
  a resolved future was resolved on the condition; the completed state is only reached with
  a resolved future.
\<close>

definition storesInv :: "'a BatchState \<Rightarrow> bool" where
  "storesInv s =
     ((waitUntilDownloadComplete s = Some Pending \<longrightarrow> \<not> checkIfDownloadCompleted s) \<and>
      (waitUntilDownloadComplete s = Some Resolved \<longrightarrow> resolvedOnEquality s))"

definition completedInv :: "'a BatchState \<Rightarrow> bool" where
  "completedInv s = (pc s = Completed \<longrightarrow> waitUntilDownloadComplete s = Some Resolved)"

text \<open>
  How many downloads have been dispatched since the last group wait, by suspension point:
  exactly \<open>THRESHOLD\<close> at the group wait, fewer wherever the loop may still dispatch.
\<close>

fun groupBound :: "'a pc \<Rightarrow> nat \<Rightarrow> bool" where
  "groupBound (AwaitGroup rest) n = (n = THRESHOLD)"
| "groupBound AwaitNext n = (n < THRESHOLD)"
| "groupBound AwaitEmptySleep n = (n < THRESHOLD)"
| "groupBound (AwaitCooldown i rest) n = (n < THRESHOLD)"
| "groupBound (AwaitParse i rest) n = (n < THRESHOLD)"
| "groupBound (AwaitValidity i m rest) n = (n < THRESHOLD)"
| "groupBound (AwaitDelay rest) n = (n < THRESHOLD)"
| "groupBound Idle n = (n \<le> THRESHOLD)"
| "groupBound AwaitReturn n = (n \<le> THRESHOLD)"
| "groupBound Completed n = (n \<le> THRESHOLD)"
| "groupBound (Errored r) n = (n \<le> THRESHOLD)"

definition groupInv :: "'a BatchState \<Rightarrow> bool" where
  "groupInv s = groupBound (pc s) (length (dlPromise s))"

text \<open>The group holds the handles of the most recent dispatches.\<close>

definition lastHandles :: "'a BatchState \<Rightarrow> bool" where
  "lastHandles s =
     (dlPromise s = [length (dispatched s) - length (dlPromise s) ..< length (dispatched s)])"

text \<open>The part of the state that \<open>lastHandles\<close> reads.\<close>

definition hView :: "'a BatchState \<Rightarrow> nat list \<times> (string \<times> string) list" where
  "hView s = (dlPromise s, dispatched s)"

text \<open>
  Rate-limit signals observed (failures recorded with a 429 reason) and cooldowns started
  (calls of \<open>sleep(30000)\<close>).
\<close>

definition signals :: "'a BatchState \<Rightarrow> nat" where
  "signals s = length (filter (\<lambda>item. is429 (reason item)) (failed s))"






text \<open>The part of the state that \<open>cooldownInv\<close> reads.\<close>

definition cdView :: "'a BatchState \<Rightarrow> 'a pc \<times> nat \<times> int list \<times> bool" where
  "cdView s = (pc s, signals s, sleeps s, status429 s)"


text \<open>The part of the state that \<open>nothingDispatched\<close> reads.\<close>

definition ndView ::
  "'a BatchState \<Rightarrow>
   ('a Meta_scheme \<Rightarrow> bool option) list \<times> (string \<times> string) list \<times> (nat \<times> string) list \<times>
   string list" where
  "ndView s = (includeFilters s, dispatched s, inflight s, successd s)"

subsection \<open>Example configurations and runs\<close>

text \<open>A site whose generator \<open>g\<close> filters while it generates, so that every parsed id is dispatched.\<close>

definition exampleConfig :: "unit BatchDownloadConfig" where
  "exampleConfig =
     \<lparr>filters = [], enableTagFilter = False, filterWhenGenerateIngPage = True,
      pageMatch = [[''g'']]\<rparr>"

definition exampleMeta :: Meta where
  "exampleMeta = \<lparr>Meta.tags = None\<rparr>"

definition batchOf :: "int \<Rightarrow> string list \<Rightarrow> YieldArtworkId" where
  "batchOf n ids =
     \<lparr>total = n, YieldArtworkId.page = 1, avaliable = ids, invalid = [], unavaliable = []\<rparr>"

definition exampleStart :: "unit BatchState" where
  "exampleStart = startRun exampleConfig ''g'' initialState"


text \<open>
  A batch announcing a total of 1 with two available ids: \<open>a\<close> is downloaded, which
  completes the run; \<open>b\<close> is still visited and its metadata request fails.
\<close>

definition lateRecordRun :: "unit event list" where
  "lateRecordRun =
     [GenYield (batchOf 1 [''a'', ''b'']), ParseOk exampleMeta ''r0'', DownloadOk 0,
      CompletionObserved, ParseFail (ReasonString ''no metadata''), CompletionObserved,
      CompletionObserved]"

text \<open>
  Seven ids: five dispatches one second apart, the first download settles and ends the
  group wait, two more dispatches follow while four downloads of the group are still pending.
\<close>

definition sixInFlightRun :: "unit event list" where
  "sixInFlightRun =
     [GenYield (batchOf 7 [''u'', ''v'', ''w'', ''x'', ''y'', ''z'', ''q'']),
      ParseOk exampleMeta ''r0'', TimerFired, ParseOk exampleMeta ''r1'', TimerFired,
      ParseOk exampleMeta ''r2'', TimerFired, ParseOk exampleMeta ''r3'', TimerFired,
      ParseOk exampleMeta ''r4'', DownloadOk 0, GroupSettled,
      ParseOk exampleMeta ''r5'', TimerFired, ParseOk exampleMeta ''r6'']"


text \<open>The download of \<open>a\<close> has succeeded and that of \<open>b\<close> is pending when the user aborts.\<close>

definition abortAfterSettleRun :: "unit event list" where
  "abortAfterSettleRun =
     [GenYield (batchOf 2 [''a'', ''b'']), ParseOk exampleMeta ''r0'', DownloadOk 0, TimerFired,
      ParseOk exampleMeta ''r1'', AbortRequested]"

text \<open>
  A site with tag filtering and one include filter that accepts everything; the user has
  selected that filter, white-listed the tag \<open>a\<close> and black-listed the tag \<open>b\<close>.
\<close>

definition acceptAll :: "unit FilterSpec" where
  "acceptAll =
     \<lparr>filterId = ''all'', filterType = Include, name = ''All'', checked = True,
      fn = (\<lambda>m. Some True)\<rparr>"

definition tagConfig :: "unit BatchDownloadConfig" where
  "tagConfig =
     \<lparr>filters = [acceptAll], enableTagFilter = True, filterWhenGenerateIngPage = False,
      pageMatch = [[''g'']]\<rparr>"

definition tagState :: "unit BatchState" where
  "tagState =
     setBlacklistTag [''b'']
       (setWhitelistTag [''a''] (selectFilters tagConfig (Some [''all'']) initialState))"




section \<open>History store: properties\<close>

lemmas store_defs =
  add_def emptyDb_def throwIfInvalidNumber_def logger_throw_def MAX_SAFE_INTEGER_def
  updatePageArray_def setBit_def typedArraySet_def cachesSet_def put_def withPage_def
  historyData_def hasPage_def has_def testBit_def bulkAdd_def Let_def




text \<open>
  C7.  On the empty store, adding page 3 of work 1 gives the one-byte bitset \<open>[8]\<close> (bit 3);
  pages 3, 4 and 9 are then reported as present, absent and absent (page 9 lies beyond the
  bitset and is answered, not refused).  Adding page 10 grows the bitset to the two bytes
  \<open>[8, 4]\<close>, after which pages 3 and 10 are both present.
\<close>

theorem history_roundtrip_and_growth:
  "(case add (historyData (Num 1) (Some (Num 3))) emptyDb of
      Inl e \<Rightarrow> False
    | Inr db1 \<Rightarrow>
        map_option page (history db1 (Num 1)) = Some (Some [8]) \<and>
        map_option (\<lambda>c. c (Num 1)) (caches db1) = Some (Some (Some [8])) \<and>
        hasPage Number (PidNumber (Num 1)) (Num 3) db1 = Inr True \<and>
        hasPage Number (PidNumber (Num 1)) (Num 4) db1 = Inr False \<and>
        hasPage Number (PidNumber (Num 1)) (Num 9) db1 = Inr False \<and>
        (case add (historyData (Num 1) (Some (Num 10))) db1 of
           Inl e \<Rightarrow> False
         | Inr db2 \<Rightarrow>
             map_option page (history db2 (Num 1)) = Some (Some [8, 4]) \<and>
             map_option (\<lambda>c. c (Num 1)) (caches db2) = Some (Some (Some [8, 4])) \<and>
             hasPage Number (PidNumber (Num 1)) (Num 3) db2 = Inr True \<and>
             hasPage Number (PidNumber (Num 1)) (Num 10) db2 = Inr True))"
  by (simp add: store_defs)



lemma add_rejects_invalid_pid:
  "\<not> (isSafeInteger (pid d) \<and> geZero (pid d)) \<Longrightarrow> add d db = Inl (InvalidNumber (pid d))"
  by (auto simp add: add_def throwIfInvalidNumber_def logger_throw_def)

lemma add_rejects_invalid_page:
  "isSafeInteger (pid d) \<Longrightarrow> geZero (pid d) \<Longrightarrow> page d = Some pg \<Longrightarrow>
   \<not> (isSafeInteger pg \<and> geZero pg) \<Longrightarrow> add d db = Inl (InvalidNumber pg)"
  by (auto simp add: add_def throwIfInvalidNumber_def logger_throw_def)

lemma has_rejects_invalid_pid:
  "\<not> (isSafeInteger n \<and> geZero n) \<Longrightarrow> has Number (PidNumber n) db = Inl (InvalidNumber n)"
  by (auto simp add: has_def throwIfInvalidNumber_def logger_throw_def)

lemma hasPage_rejects_invalid_pid:
  "\<not> (isSafeInteger n \<and> geZero n) \<Longrightarrow>
   hasPage Number (PidNumber n) pg db = Inl (InvalidNumber n)"
  by (auto simp add: hasPage_def throwIfInvalidNumber_def logger_throw_def)

lemma hasPage_rejects_invalid_page:
  "isSafeInteger n \<Longrightarrow> geZero n \<Longrightarrow> \<not> (isSafeInteger pg \<and> geZero pg) \<Longrightarrow>
   hasPage Number (PidNumber n) pg db = Inl (InvalidNumber pg)"
  by (auto simp add: hasPage_def throwIfInvalidNumber_def logger_throw_def)

lemma floor_three_halves: "\<lfloor>3 / 2 :: rat\<rfloor> = 1"
  by (simp add: floor_eq_iff)

lemma not_safe_three_halves: "\<not> isSafeInteger (Num (3 / 2))"
  by (simp add: floor_three_halves)

text \<open>
  C9.  \<open>bulkAdd\<close> does not validate identifiers: given a record with the work id \<open>-1\<close> and
  one with the work id \<open>3/2\<close> it raises nothing and writes both, to the table and to the
  mirror, although \<open>throwIfInvalidNumber\<close> refuses both numbers.
\<close>

theorem bulkAdd_writes_invalid_ids:
  "(case bulkAdd [historyData (Num (- 1)) None, historyData (Num (3 / 2)) (Some [1])] emptyDb of
      Inl e \<Rightarrow> False
    | Inr db \<Rightarrow>
        history db (Num (- 1)) = Some (historyData (Num (- 1)) None) \<and>
        history db (Num (3 / 2)) = Some (historyData (Num (3 / 2)) (Some [1])) \<and>
        map_option (\<lambda>c. c (Num (- 1))) (caches db) = Some (Some None) \<and>
        map_option (\<lambda>c. c (Num (3 / 2))) (caches db) = Some (Some (Some [1])))
   \<and> throwIfInvalidNumber (Num (- 1)) = Inl (InvalidNumber (Num (- 1)))
   \<and> throwIfInvalidNumber (Num (3 / 2)) = Inl (InvalidNumber (Num (3 / 2)))"
  by (simp add: store_defs not_safe_three_halves del: isSafeInteger.simps)


section \<open>Filter pipeline: properties\<close>

text \<open>
  C5.  With tag filtering enabled, the white list \<open>[a]\<close>, the black list \<open>[b]\<close> and an
  include filter that accepts everything selected, an item tagged \<open>a\<close> and \<open>b\<close> passes the
  tag filter and the whole validity check: the white list is consulted first and decides
  alone, so the black-listed tag does not reject the item.
\<close>

theorem whitelist_overrides_blacklist:
  "whitelistTag tagState = [''a''] \<and> blacklistTag tagState = [''b''] \<and>
   filterTag tagState \<lparr>Meta.tags = Some [''a'', ''b'']\<rparr> = True \<and>
   checkValidity tagConfig tagState \<lparr>Meta.tags = Some [''a'', ''b'']\<rparr> = True"
  by (simp add: tagState_def tagConfig_def acceptAll_def setBlacklistTag_def setWhitelistTag_def
      selectFilters_def pushFilter_def initialState_def filterTag_def checkValidity_def
      someIncluded_def)

lemma filterTag_blacklist_only:
  "whitelistTag s = [] \<Longrightarrow> blacklistTag s \<noteq> [] \<Longrightarrow> Meta.tags m = Some ts \<Longrightarrow>
   filterTag s m = (\<not> someIncluded (blacklistTag s) ts)"
  by (simp add: filterTag_def)

lemma filterTag_whitelist:
  "whitelistTag s \<noteq> [] \<Longrightarrow> Meta.tags m = Some ts \<Longrightarrow>
   filterTag s m = someIncluded (whitelistTag s) ts"
  by (simp add: filterTag_def)

lemma filterTag_no_lists:
  "whitelistTag s = [] \<Longrightarrow> blacklistTag s = [] \<Longrightarrow> filterTag s m"
  by (simp add: filterTag_def split: option.splits)

lemma pushFilter_include:
  "includeFilters (pushFilter cfg i s) =
     includeFilters s @
       (case List.find (\<lambda>f. filterId f = i) (filters cfg) of
          None \<Rightarrow> []
        | Some f \<Rightarrow> if filterType f = Include then [fn f] else [])"
  by (simp add: pushFilter_def split: option.splits)

lemma selectFilters_include:
  "includeFilters (selectFilters cfg (Some ids) s) =
     concat (map (\<lambda>i. case List.find (\<lambda>f. filterId f = i) (filters cfg) of
                         None \<Rightarrow> []
                       | Some f \<Rightarrow> if filterType f = Include then [fn f] else []) ids)"
proof -
  have "includeFilters (fold (pushFilter cfg) ids s') =
          includeFilters s' @
            concat (map (\<lambda>i. case List.find (\<lambda>f. filterId f = i) (filters cfg) of
                                None \<Rightarrow> []
                              | Some f \<Rightarrow> if filterType f = Include then [fn f] else []) ids)"
    for s' :: "'a BatchState"
    by (induction ids arbitrary: s') (simp_all add: pushFilter_include)
  then show ?thesis by (simp add: selectFilters_def)
qed

section \<open>Starting a run: properties\<close>

text \<open>
  C10.  Called while a run is in progress, \<open>batchDownload\<close> fails at once with the error
  \<open>Already downloading.\<close> and leaves the whole state as it is: the counters and lists of
  the run in progress are not reset.
\<close>

theorem batchDownload_already_downloading:
  assumes "downloading s"
  shows "batchDownload cfg fnId s = (Some (Error ''Already downloading.''), s)"
  using assms by (simp add: batchDownload_def)

theorem batchDownload_already_downloading_witness:
  "downloading exampleStart \<and>
   fst (batchDownload exampleConfig ''g'' exampleStart) = Some (Error ''Already downloading.'') \<and>
   artworkCount (snd (batchDownload exampleConfig ''g'' exampleStart)) = artworkCount exampleStart \<and>
   successd (snd (batchDownload exampleConfig ''g'' exampleStart)) = successd exampleStart \<and>
   failed (snd (batchDownload exampleConfig ''g'' exampleStart)) = failed exampleStart \<and>
   excluded (snd (batchDownload exampleConfig ''g'' exampleStart)) = excluded exampleStart"
proof -
  have d: "downloading exampleStart"
    by (simp add: exampleStart_def startRun_def batchDownload_def exampleConfig_def
        initialState_def getGenerator_def dispatchDownload_def reset_def writeLog_def Let_def)
  show ?thesis
    using d batchDownload_already_downloading [OF d, of exampleConfig "''g''"] by simp
qed


section \<open>The run: completion\<close>

lemmas inv_defs = storesInv_def resolvedOnEquality_def checkIfDownloadCompleted_def

lemma storesInv_subscribe:
  "(waitUntilDownloadComplete s = Some Resolved \<longrightarrow> resolvedOnEquality s) \<Longrightarrow> storesInv (subscribeCompleted s)"
  by (auto simp add: inv_defs subscribeCompleted_def downloadCompleted_def split: option.splits promise.splits)

lemma subscribeCompleted_resolves:
  assumes "waitUntilDownloadComplete s = Some Pending"
  shows "(waitUntilDownloadComplete (subscribeCompleted s) = Some Resolved)
           = checkIfDownloadCompleted s"
    and "checkIfDownloadCompleted s \<Longrightarrow>
         resolvedAt (subscribeCompleted s) =
           Some (artworkCount s, length (successd s), length (failed s), length (excluded s))"
  using assms by (simp_all add: subscribeCompleted_def downloadCompleted_def)

lemma storesInv_setArtworkCount: "storesInv s \<Longrightarrow> storesInv (setArtworkCount n s)"
  unfolding setArtworkCount_def by (rule storesInv_subscribe) (simp add: inv_defs)

lemma storesInv_addSuccessd: "storesInv s \<Longrightarrow> storesInv (addSuccessd i s)"
  unfolding addSuccessd_def by (rule storesInv_subscribe) (simp add: inv_defs writeLog_def)

lemma storesInv_addFailed: "storesInv s \<Longrightarrow> storesInv (addFailed i s)"
  unfolding addFailed_def by (rule storesInv_subscribe) (simp add: inv_defs writeLog_def logFail_def split: reason.splits)

lemma storesInv_addFailedAll: "storesInv s \<Longrightarrow> storesInv (addFailedAll items s)"
proof (cases "rev items")
  case Nil
  then show "storesInv s \<Longrightarrow> storesInv (addFailedAll items s)"
    by (simp add: addFailedAll_def)
next
  case (Cons lastItem front)
  assume "storesInv s"
  then have "storesInv (subscribeCompleted (logFail lastItem (s\<lparr>failed := failed s @ items\<rparr>)))"
    by (intro storesInv_subscribe)
       (simp add: inv_defs writeLog_def logFail_def split: reason.splits)
  then show "storesInv (addFailedAll items s)"
    using Cons by (simp add: addFailedAll_def)
qed

lemma storesInv_addExcluded: "storesInv s \<Longrightarrow> storesInv (addExcluded i s)"
  unfolding addExcluded_def by (rule storesInv_subscribe) (simp add: inv_defs writeLog_def)

lemma storesInv_addExcludedAll: "storesInv s \<Longrightarrow> storesInv (addExcludedAll i s)"
  unfolding addExcludedAll_def by (rule storesInv_subscribe) (simp add: inv_defs writeLog_def)

lemma storesInv_forLoop: "storesInv (forLoop rest s) = storesInv s"
  by (cases rest) (simp_all add: inv_defs sleep_def writeLog_def)

lemma storesInv_failedHanlder: "storesInv s \<Longrightarrow> storesInv (failedHanlder i r s)"
  using storesInv_addFailed[of s "\<lparr>failedId = i, reason = r\<rparr>"]
  by (simp add: failedHanlder_def Let_def) (simp add: inv_defs)

lemma storesInv_abortListener: "storesInv s \<Longrightarrow> storesInv (abortListener s)"
  by (auto simp add: abortListener_def downloadAbort_def Let_def inv_defs split: option.splits promise.splits)

lemma storesInv_controllerAbort: "storesInv s \<Longrightarrow> storesInv (controllerAbort r s)"
  by (auto simp add: controllerAbort_def Let_def 
       split: option.splits signal.splits intro!: storesInv_abortListener) (simp_all add: inv_defs)

lemma storesInv_upd [simp]:
  "storesInv (s\<lparr>pc := x1\<rparr>) = storesInv s"
  "storesInv (s\<lparr>sleeps := x2\<rparr>) = storesInv s"
  "storesInv (s\<lparr>logItems := x3\<rparr>) = storesInv s"
  "storesInv (s\<lparr>status429 := x4\<rparr>) = storesInv s"
  "storesInv (s\<lparr>dlPromise := x5\<rparr>) = storesInv s"
  "storesInv (s\<lparr>generatorReturned := x6\<rparr>) = storesInv s"
  "storesInv (s\<lparr>controller := x7\<rparr>) = storesInv s"
  "storesInv (s\<lparr>listening := x8\<rparr>) = storesInv s"
  "storesInv (s\<lparr>downloading := x9\<rparr>) = storesInv s"
  "storesInv (s\<lparr>tasks := y1\<rparr>) = storesInv s"
  "storesInv (s\<lparr>inflight := y2\<rparr>) = storesInv s"
  "storesInv (s\<lparr>dispatched := y3\<rparr>) = storesInv s"
  "storesInv (s\<lparr>abortCalls := y4\<rparr>) = storesInv s"
  by (simp_all add: inv_defs)

lemma storesInv_writeLog [simp]: "storesInv (writeLog item s) = storesInv s"
  by (simp add: writeLog_def)

lemma storesInv_sleep [simp]: "storesInv (sleep n s) = storesInv s"
  by (simp add: sleep_def)

lemma storesInv_catchBlock: "storesInv s \<Longrightarrow> storesInv (catchBlock g r s)"
  by (cases r) (simp_all add: catchBlock_def Let_def storesInv_controllerAbort)

lemma storesInv_dispatch: "storesInv (dispatch rnd i rest s) = storesInv s"
  by (simp add: dispatch_def Let_def)

lemma storesInv_onBatch: "storesInv s \<Longrightarrow> storesInv (onBatch b s)"
  by (simp add: onBatch_def Let_def storesInv_catchBlock storesInv_forLoop storesInv_setArtworkCount
      storesInv_addExcludedAll storesInv_addFailedAll)

lemma storesInv_afterParseOk: "storesInv s \<Longrightarrow> storesInv (afterParseOk cfg rnd m i rest s)"
  by (simp add: afterParseOk_def storesInv_catchBlock storesInv_dispatch)

lemma storesInv_afterParseFail: "storesInv s \<Longrightarrow> storesInv (afterParseFail r i rest s)"
  by (simp add: afterParseFail_def Let_def storesInv_catchBlock storesInv_forLoop storesInv_failedHanlder)

lemma storesInv_afterValidity: "storesInv s \<Longrightarrow> storesInv (afterValidity cfg rnd m i rest s)"
  by (simp add: afterValidity_def storesInv_dispatch storesInv_forLoop storesInv_addExcluded)

lemma storesInv_resume: "storesInv s \<Longrightarrow> resume s = Some s' \<Longrightarrow> storesInv s'"
  by (auto simp add: resume_def storesInv_forLoop split: pc.splits)

lemma storesInv_complete: "storesInv (complete s) = storesInv s"
  by (simp add: complete_def)

lemma storesInv_removeTask: "storesInv (removeTask i s) = storesInv s"
  by (simp add: removeTask_def)

lemma storesInv_settle: "storesInv (settle h s) = storesInv s"
  by (simp add: settle_def)

lemma storesInv_handleSucccess: "storesInv s \<Longrightarrow> storesInv (handleSucccess i s)"
  by (simp add: handleSucccess_def storesInv_addSuccessd)

lemma storesInv_abort: "storesInv s \<Longrightarrow> storesInv (abort s)"
  by (simp add: abort_def storesInv_controllerAbort)

lemma storesInv_step: "storesInv s \<Longrightarrow> step cfg e s = Some s' \<Longrightarrow> storesInv s'"
  by (cases e)
     (auto simp add: step_def storesInv_onBatch storesInv_catchBlock storesInv_afterParseOk
        storesInv_afterParseFail storesInv_afterValidity storesInv_complete storesInv_removeTask
        storesInv_settle
        storesInv_handleSucccess storesInv_failedHanlder storesInv_abort
        split: pc.splits option.splits promise.splits if_splits
        dest: storesInv_resume)

subsection \<open>A settled future stays as it is\<close>

lemma settled_subscribe:
  "waitUntilDownloadComplete s \<noteq> Some Pending \<Longrightarrow>
   waitUntilDownloadComplete (subscribeCompleted s) = waitUntilDownloadComplete s"
  by (auto simp add: subscribeCompleted_def downloadCompleted_def split: option.splits promise.splits)

lemma settled_stores:
  assumes "waitUntilDownloadComplete s \<noteq> Some Pending"
  shows "waitUntilDownloadComplete (setArtworkCount n s) = waitUntilDownloadComplete s"
    and "waitUntilDownloadComplete (addSuccessd i s) = waitUntilDownloadComplete s"
    and "waitUntilDownloadComplete (addFailed item s) = waitUntilDownloadComplete s"
    and "waitUntilDownloadComplete (addFailedAll items s) = waitUntilDownloadComplete s"
    and "waitUntilDownloadComplete (addExcluded i s) = waitUntilDownloadComplete s"
    and "waitUntilDownloadComplete (addExcludedAll ids s) = waitUntilDownloadComplete s"
  using assms
  by (simp_all add: setArtworkCount_def addSuccessd_def addFailed_def addFailedAll_def
      addExcluded_def addExcludedAll_def settled_subscribe writeLog_def logFail_def
      split: reason.splits list.splits)

lemma promise_forLoop [simp]:
  "waitUntilDownloadComplete (forLoop rest s) = waitUntilDownloadComplete s"
  by (cases rest) (simp_all add: sleep_def writeLog_def)

lemma promise_dispatch [simp]:
  "waitUntilDownloadComplete (dispatch rnd i rest s) = waitUntilDownloadComplete s"
  by (simp add: dispatch_def Let_def sleep_def writeLog_def)

lemma settled_controllerAbort:
  "waitUntilDownloadComplete s \<noteq> Some Pending \<Longrightarrow>
   waitUntilDownloadComplete (controllerAbort r s) = waitUntilDownloadComplete s"
  by (auto simp add: controllerAbort_def abortListener_def downloadAbort_def Let_def
      split: option.splits signal.splits promise.splits)

lemma settled_catchBlock:
  "waitUntilDownloadComplete s \<noteq> Some Pending \<Longrightarrow>
   waitUntilDownloadComplete (catchBlock g r s) = waitUntilDownloadComplete s"
  by (cases r) (simp_all add: catchBlock_def Let_def settled_controllerAbort writeLog_def)

lemma settled_failedHanlder:
  "waitUntilDownloadComplete s \<noteq> Some Pending \<Longrightarrow>
   waitUntilDownloadComplete (failedHanlder i r s) = waitUntilDownloadComplete s"
  by (simp add: failedHanlder_def Let_def settled_stores)

lemma settled_onBatch:
  "waitUntilDownloadComplete s \<noteq> Some Pending \<Longrightarrow>
   waitUntilDownloadComplete (onBatch b s) = waitUntilDownloadComplete s"
  by (simp add: onBatch_def Let_def settled_catchBlock settled_stores sleep_def)

lemma settled_step:
  "waitUntilDownloadComplete s \<noteq> Some Pending \<Longrightarrow> step cfg e s = Some s' \<Longrightarrow>
   waitUntilDownloadComplete s' = waitUntilDownloadComplete s"
  by (cases e)
     (auto simp add: step_def settled_onBatch settled_catchBlock afterParseOk_def
        afterParseFail_def afterValidity_def Let_def settled_failedHanlder settled_stores
        resume_def complete_def writeLog_def removeTask_def settle_def handleSucccess_def abort_def
        settled_controllerAbort
        split: pc.splits option.splits promise.splits if_splits)

subsection \<open>Only a resolved future leads to the completed state\<close>

lemma pc_forLoop: "pc (forLoop rest s) \<noteq> Completed"
  by (cases rest) (simp_all add: sleep_def writeLog_def)

lemma pc_dispatch: "pc (dispatch rnd i rest s) \<noteq> Completed"
  by (simp add: dispatch_def Let_def sleep_def writeLog_def)

lemma pc_catchBlock: "pc (catchBlock g r s) = Errored r"
  by (simp add: catchBlock_def Let_def)

lemma pc_onBatch: "pc (onBatch b s) \<noteq> Completed"
  by (simp add: onBatch_def Let_def pc_catchBlock pc_forLoop)

lemma pc_subscribe [simp]: "pc (subscribeCompleted s) = pc s"
  by (simp add: subscribeCompleted_def downloadCompleted_def split: option.splits promise.splits)

lemma pc_stores [simp]:
  "pc (setArtworkCount n s) = pc s"
  "pc (addSuccessd i s) = pc s"
  "pc (addFailed item s) = pc s"
  "pc (addFailedAll items s) = pc s"
  "pc (addExcluded i s) = pc s"
  "pc (addExcludedAll ids s) = pc s"
  by (simp_all add: setArtworkCount_def addSuccessd_def addFailed_def addFailedAll_def
      addExcluded_def addExcludedAll_def writeLog_def logFail_def
      split: reason.splits list.splits)

lemma pc_controllerAbort [simp]: "pc (controllerAbort r s) = pc s"
  by (simp add: controllerAbort_def abortListener_def downloadAbort_def Let_def
      split: option.splits signal.splits promise.splits)

lemma pc_failedHanlder [simp]: "pc (failedHanlder i r s) = pc s"
  by (simp add: failedHanlder_def Let_def)

lemma completedInv_step:
  assumes "completedInv s" "step cfg e s = Some s'"
  shows "completedInv s'"
proof (cases "pc s = Completed")
  case True
  then have r: "waitUntilDownloadComplete s = Some Resolved"
    using assms(1) by (simp add: completedInv_def)
  then have "waitUntilDownloadComplete s' = Some Resolved"
    using settled_step [OF _ assms(2)] by simp
  then show ?thesis by (simp add: completedInv_def)
next
  case False
  then show ?thesis using assms(2)
    by (cases e)
       (auto simp add: completedInv_def step_def pc_onBatch pc_catchBlock afterParseOk_def
          afterParseFail_def afterValidity_def Let_def pc_forLoop pc_dispatch resume_def
          complete_def writeLog_def removeTask_def settle_def handleSucccess_def abort_def
          split: pc.splits option.splits promise.splits if_splits)
qed

lemma startRun_cases:
  assumes "\<not> downloading s0"
  shows "startRun cfg fnId s0 =
           dispatchDownload ((reset (writeLog (Info ''Start download...'') (s0\<lparr>downloading := True\<rparr>)))\<lparr>controller := Some NotAborted\<rparr>)
       \<or> (\<exists>e. startRun cfg fnId s0 =
           catchBlock False (ReasonError e) ((reset (writeLog (Info ''Start download...'') (s0\<lparr>downloading := True\<rparr>)))\<lparr>controller := Some NotAborted\<rparr>))"
  using assms by (auto simp add: startRun_def batchDownload_def Let_def split: sum.splits)

lemma storesInv_start: "\<not> downloading s0 \<Longrightarrow> storesInv (startRun cfg fnId s0)"
  using startRun_cases[of s0 cfg fnId]
  by (auto simp add: dispatchDownload_def reset_def writeLog_def catchBlock_def Let_def controllerAbort_def signalAborted_def inv_defs)

lemma completedInv_start: "\<not> downloading s0 \<Longrightarrow> completedInv (startRun cfg fnId s0)"
  using startRun_cases[of s0 cfg fnId]
  by (auto simp add: dispatchDownload_def pc_catchBlock completedInv_def)

lemma storesInv_run: "storesInv s \<Longrightarrow> run cfg evs s = Some s' \<Longrightarrow> storesInv s'"
  by (induction evs arbitrary: s) (auto split: option.splits dest: storesInv_step)

lemma completedInv_run: "completedInv s \<Longrightarrow> run cfg evs s = Some s' \<Longrightarrow> completedInv s'"
  by (induction evs arbitrary: s) (auto split: option.splits dest: completedInv_step)


text \<open>
  C1.  In every state a first run can reach: while the future of the run is pending, the
  completion condition \<open>artworkCount = |successd| + |failed| + |excluded|\<close> is false; and if
  the run has reached the completed state, the future was resolved, and the stores
  satisfied the condition at the moment it was resolved.
\<close>

theorem completion_future_resolves_on_equality:
  assumes "\<not> downloading s0" and "run cfg evs (startRun cfg fnId s0) = Some s"
  shows "(waitUntilDownloadComplete s = Some Pending \<longrightarrow> \<not> checkIfDownloadCompleted s) \<and>
         (pc s = Completed \<longrightarrow>
            waitUntilDownloadComplete s = Some Resolved \<and> resolvedOnEquality s)"
  using storesInv_run [OF storesInv_start [OF assms(1)] assms(2)]
        completedInv_run [OF completedInv_start [OF assms(1)] assms(2)]
  by (simp add: storesInv_def completedInv_def)

theorem completion_future_resolves_on_equality_witness:
  "\<not> downloading (initialState :: unit BatchState) \<and>
   (case run exampleConfig lateRecordRun (startRun exampleConfig ''g'' initialState) of
      None \<Rightarrow> False
    | Some s \<Rightarrow>
        pc s = Completed \<and> waitUntilDownloadComplete s = Some Resolved \<and>
        resolvedOnEquality s \<and> resolvedAt s = Some (Some 1, 1, 0, 0))"
proof -
  have e: "case run exampleConfig lateRecordRun (startRun exampleConfig ''g'' initialState) of
             None \<Rightarrow> False
           | Some s \<Rightarrow> pc s = Completed \<and> resolvedAt s = Some (Some 1, 1, 0, 0)"
    by code_simp
  then obtain s
    where r: "run exampleConfig lateRecordRun (startRun exampleConfig ''g'' initialState) = Some s"
      and f: "pc s = Completed" "resolvedAt s = Some (Some 1, 1, 0, 0)"
    by (auto split: option.splits)
  have n: "\<not> downloading (initialState :: unit BatchState)"
    by (simp add: initialState_def)
  from completion_future_resolves_on_equality [OF n r] f r n show ?thesis by simp
qed

text \<open>
  The run \<open>lateRecordRun\<close> reaches the completed state (\<open>Download complete.\<close> is logged,
  \<open>downloading\<close> is false) with \<open>artworkCount = 1\<close>, one success and one failure: the final
  counters do not satisfy the equality.
\<close>

theorem completed_run_with_unequal_counters:
  "(case run exampleConfig lateRecordRun exampleStart of
      None \<Rightarrow> False
    | Some s \<Rightarrow>
        pc s = Completed \<and> \<not> downloading s \<and> artworkCount s = Some 1 \<and> successd s = [''a''] \<and>
        map failedId (failed s) = [''b''] \<and> excluded s = [] \<and> \<not> checkIfDownloadCompleted s)"
  by code_simp


section \<open>The run: nothing selected, nothing downloaded\<close>




lemma ndView_upd [simp]:
  "ndView (s\<lparr>pc := x1\<rparr>) = ndView s"
  "ndView (s\<lparr>sleeps := x2\<rparr>) = ndView s"
  "ndView (s\<lparr>logItems := x3\<rparr>) = ndView s"
  "ndView (s\<lparr>status429 := x4\<rparr>) = ndView s"
  "ndView (s\<lparr>dlPromise := x5\<rparr>) = ndView s"
  "ndView (s\<lparr>generatorReturned := x6\<rparr>) = ndView s"
  "ndView (s\<lparr>controller := x7\<rparr>) = ndView s"
  "ndView (s\<lparr>listening := x8\<rparr>) = ndView s"
  "ndView (s\<lparr>downloading := x9\<rparr>) = ndView s"
  "ndView (s\<lparr>tasks := y1\<rparr>) = ndView s"
  "ndView (s\<lparr>abortCalls := y4\<rparr>) = ndView s"
  "ndView (s\<lparr>artworkCount := y5\<rparr>) = ndView s"
  "ndView (s\<lparr>failed := y7\<rparr>) = ndView s"
  "ndView (s\<lparr>excluded := y8\<rparr>) = ndView s"
  "ndView (s\<lparr>waitUntilDownloadComplete := y9\<rparr>) = ndView s"
  "ndView (s\<lparr>resolvedAt := z1\<rparr>) = ndView s"
  by (simp_all add: ndView_def)

lemma ndView_writeLog [simp]: "ndView (writeLog item s) = ndView s"
  by (simp add: writeLog_def)

lemma ndView_sleep [simp]: "ndView (sleep ms s) = ndView s"
  by (simp add: sleep_def)

lemma ndView_subscribe [simp]: "ndView (subscribeCompleted s) = ndView s"
  by (simp add: subscribeCompleted_def downloadCompleted_def split: option.splits promise.splits)

lemma ndView_stores [simp]:
  "ndView (setArtworkCount n s) = ndView s"
  "ndView (addFailed item s) = ndView s"
  "ndView (addFailedAll items s) = ndView s"
  "ndView (addExcluded i s) = ndView s"
  "ndView (addExcludedAll ids s) = ndView s"
  by (simp_all add: setArtworkCount_def addFailed_def addFailedAll_def
      addExcluded_def addExcludedAll_def logFail_def split: list.splits reason.splits)

lemma ndView_controllerAbort [simp]: "ndView (controllerAbort r s) = ndView s"
  by (simp add: controllerAbort_def abortListener_def downloadAbort_def Let_def
      split: option.splits signal.splits promise.splits)

lemma ndView_catchBlock [simp]: "ndView (catchBlock g r s) = ndView s"
  by (cases r) (simp_all add: catchBlock_def Let_def)

lemma ndView_failedHanlder [simp]: "ndView (failedHanlder i r s) = ndView s"
  by (simp add: failedHanlder_def Let_def)

lemma ndView_forLoop [simp]: "ndView (forLoop rest s) = ndView s"
  by (cases rest) simp_all

lemma ndView_onBatch [simp]: "ndView (onBatch b s) = ndView s"
  by (simp add: onBatch_def Let_def)

lemma ndView_misc [simp]:
  "ndView (removeTask i s) = ndView s"
  "ndView (abort s) = ndView s"
  "ndView (complete s) = ndView s"
  by (simp_all add: removeTask_def abort_def complete_def)








section \<open>The run: dispatch groups\<close>

lemma groupBound_le: "groupBound p n \<Longrightarrow> n \<le> THRESHOLD"
  by (cases p) simp_all

lemma dl_subscribe [simp]: "dlPromise (subscribeCompleted s) = dlPromise s"
  by (simp add: subscribeCompleted_def downloadCompleted_def split: option.splits promise.splits)

lemma dl_stores [simp]:
  "dlPromise (setArtworkCount n s) = dlPromise s"
  "dlPromise (addSuccessd i s) = dlPromise s"
  "dlPromise (addFailed item s) = dlPromise s"
  "dlPromise (addFailedAll items s) = dlPromise s"
  "dlPromise (addExcluded i s) = dlPromise s"
  "dlPromise (addExcludedAll ids s) = dlPromise s"
  by (simp_all add: setArtworkCount_def addSuccessd_def addFailed_def addFailedAll_def
      addExcluded_def addExcludedAll_def writeLog_def logFail_def
      split: reason.splits list.splits)

lemma dl_controllerAbort [simp]: "dlPromise (controllerAbort r s) = dlPromise s"
  by (simp add: controllerAbort_def abortListener_def downloadAbort_def Let_def
      split: option.splits signal.splits promise.splits)

lemma dl_failedHanlder [simp]: "dlPromise (failedHanlder i r s) = dlPromise s"
  by (simp add: failedHanlder_def Let_def)

lemma dl_catchBlock [simp]: "dlPromise (catchBlock g r s) = dlPromise s"
  by (cases r) (simp_all add: catchBlock_def Let_def writeLog_def)

lemma groupInv_catchBlock: "length (dlPromise s) \<le> THRESHOLD \<Longrightarrow> groupInv (catchBlock g r s)"
  by (simp add: groupInv_def pc_catchBlock)

lemma groupInv_forLoop: "length (dlPromise s) < THRESHOLD \<Longrightarrow> groupInv (forLoop rest s)"
  by (cases rest) (simp_all add: groupInv_def sleep_def writeLog_def)

lemma groupInv_dispatch: "length (dlPromise s) < THRESHOLD \<Longrightarrow> groupInv (dispatch rnd i rest s)"
  by (auto simp add: groupInv_def dispatch_def Let_def sleep_def writeLog_def)

lemma groupInv_onBatch: "length (dlPromise s) < THRESHOLD \<Longrightarrow> groupInv (onBatch b s)"
  by (simp add: onBatch_def Let_def groupInv_catchBlock groupInv_forLoop)
     (simp add: groupInv_def sleep_def)

lemma groupInv_lt:
  "groupInv s \<Longrightarrow> pc s = AwaitNext \<Longrightarrow> length (dlPromise s) < THRESHOLD"
  "groupInv s \<Longrightarrow> pc s = AwaitEmptySleep \<Longrightarrow> length (dlPromise s) < THRESHOLD"
  "groupInv s \<Longrightarrow> pc s = AwaitCooldown i rest \<Longrightarrow> length (dlPromise s) < THRESHOLD"
  "groupInv s \<Longrightarrow> pc s = AwaitParse i rest \<Longrightarrow> length (dlPromise s) < THRESHOLD"
  "groupInv s \<Longrightarrow> pc s = AwaitValidity i m rest \<Longrightarrow> length (dlPromise s) < THRESHOLD"
  "groupInv s \<Longrightarrow> pc s = AwaitDelay rest \<Longrightarrow> length (dlPromise s) < THRESHOLD"
  by (simp_all add: groupInv_def)

lemma groupInv_le: "groupInv s \<Longrightarrow> length (dlPromise s) \<le> THRESHOLD"
  by (simp add: groupInv_def groupBound_le)

lemma groupInv_resume: "groupInv s \<Longrightarrow> resume s = Some s' \<Longrightarrow> groupInv s'"
proof (cases "pc s")
  case (AwaitGroup rest)
  then show "groupInv s \<Longrightarrow> resume s = Some s' \<Longrightarrow> groupInv s'"
    using groupInv_forLoop [of "s\<lparr>dlPromise := []\<rparr>" rest]
    by (auto simp add: resume_def THRESHOLD_def)
next
  case (AwaitDelay rest)
  then show "groupInv s \<Longrightarrow> resume s = Some s' \<Longrightarrow> groupInv s'"
    using groupInv_forLoop [of s rest] by (auto simp add: resume_def groupInv_lt)
qed (auto simp add: resume_def groupInv_def)

lemma groupInv_step: "groupInv s \<Longrightarrow> step cfg e s = Some s' \<Longrightarrow> groupInv s'"
proof (cases e)
  case (GenYield b)
  then show "groupInv s \<Longrightarrow> step cfg e s = Some s' \<Longrightarrow> groupInv s'"
    by (auto simp add: step_def groupInv_onBatch groupInv_lt split: pc.splits)
next
  case GenDone
  then show "groupInv s \<Longrightarrow> step cfg e s = Some s' \<Longrightarrow> groupInv s'"
    by (auto simp add: step_def groupInv_def split: pc.splits)
next
  case (GenThrow r)
  then show "groupInv s \<Longrightarrow> step cfg e s = Some s' \<Longrightarrow> groupInv s'"
    by (auto simp add: step_def groupInv_catchBlock groupInv_le split: pc.splits)
next
  case (ParseOk m rnd)
  then show "groupInv s \<Longrightarrow> step cfg e s = Some s' \<Longrightarrow> groupInv s'"
    by (auto simp add: step_def afterParseOk_def groupInv_catchBlock groupInv_le groupInv_dispatch
        groupInv_lt split: pc.splits) (simp add: groupInv_def)
next
  case (ParseFail r)
  then show "groupInv s \<Longrightarrow> step cfg e s = Some s' \<Longrightarrow> groupInv s'"
    by (auto simp add: step_def afterParseFail_def Let_def groupInv_catchBlock groupInv_le
        groupInv_forLoop groupInv_lt split: pc.splits)
next
  case (ValidityChecked rnd)
  then show "groupInv s \<Longrightarrow> step cfg e s = Some s' \<Longrightarrow> groupInv s'"
    by (auto simp add: step_def afterValidity_def groupInv_forLoop groupInv_dispatch groupInv_lt
        split: pc.splits)
next
  case TimerFired
  then show "groupInv s \<Longrightarrow> step cfg e s = Some s' \<Longrightarrow> groupInv s'"
    using groupInv_resume [of s s'] by (auto simp add: step_def split: if_splits)
next
  case GroupSettled
  then show "groupInv s \<Longrightarrow> step cfg e s = Some s' \<Longrightarrow> groupInv s'"
    using groupInv_resume [of s s'] by (auto simp add: step_def split: pc.splits if_splits)
next
  case CompletionObserved
  then show "groupInv s \<Longrightarrow> step cfg e s = Some s' \<Longrightarrow> groupInv s'"
    using groupInv_resume [of s s'] groupInv_catchBlock [of s True] groupInv_le [of s]
    by (auto simp add: step_def complete_def writeLog_def groupInv_def
        split: option.splits promise.splits pc.splits if_splits)
next
  case (DownloadOk h)
  then show "groupInv s \<Longrightarrow> step cfg e s = Some s' \<Longrightarrow> groupInv s'"
    by (auto simp add: step_def removeTask_def settle_def handleSucccess_def groupInv_def
        split: option.splits)
next
  case (DownloadFail h r)
  then show "groupInv s \<Longrightarrow> step cfg e s = Some s' \<Longrightarrow> groupInv s'"
    by (auto simp add: step_def removeTask_def settle_def groupInv_def split: option.splits)
next
  case AbortRequested
  then show "groupInv s \<Longrightarrow> step cfg e s = Some s' \<Longrightarrow> groupInv s'"
    by (auto simp add: step_def abort_def groupInv_def)
qed

lemma groupInv_start: "noRunYet s0 \<Longrightarrow> groupInv (startRun cfg fnId s0)"
proof -
  assume a: "noRunYet s0"
  then have d: "\<not> downloading s0" by (simp add: noRunYet_def)
  show ?thesis
    using startRun_cases [OF d, of cfg fnId] a
    by (auto simp add: noRunYet_def groupInv_def dispatchDownload_def pc_catchBlock reset_def
        writeLog_def THRESHOLD_def)
qed

lemma groupInv_run: "groupInv s \<Longrightarrow> run cfg evs s = Some s' \<Longrightarrow> groupInv s'"
  by (induction evs arbitrary: s) (auto split: option.splits dest: groupInv_step)

lemma dispatched_subscribe [simp]: "dispatched (subscribeCompleted s) = dispatched s"
  by (simp add: subscribeCompleted_def downloadCompleted_def split: option.splits promise.splits)

lemma dispatched_stores [simp]:
  "dispatched (addSuccessd i s) = dispatched s"
  "dispatched (addFailed item s) = dispatched s"
  by (simp_all add: addSuccessd_def addFailed_def writeLog_def logFail_def split: reason.splits)

lemma dispatched_controllerAbort [simp]: "dispatched (controllerAbort r s) = dispatched s"
  by (simp add: controllerAbort_def abortListener_def downloadAbort_def Let_def
      split: option.splits signal.splits promise.splits)

lemma dispatched_failedHanlder [simp]: "dispatched (failedHanlder i r s) = dispatched s"
  by (simp add: failedHanlder_def Let_def)

lemma group_wait_holds:
  assumes "pc s = AwaitGroup rest" "\<not> groupSettled s" "waitUntilDownloadComplete s = Some Pending"
    and "step cfg e s = Some s'"
  shows "dispatched s' = dispatched s \<and> pc s' = AwaitGroup rest"
  using assms
  by (cases e)
     (auto simp add: step_def removeTask_def settle_def handleSucccess_def abort_def
        split: option.splits)


lemma lh_cong: "hView s' = hView s \<Longrightarrow> lastHandles s' = lastHandles s"
  by (simp add: hView_def lastHandles_def)

lemma hView_upd [simp]:
  "hView (s\<lparr>pc := x1\<rparr>) = hView s"
  "hView (s\<lparr>sleeps := x2\<rparr>) = hView s"
  "hView (s\<lparr>logItems := x3\<rparr>) = hView s"
  "hView (s\<lparr>status429 := x4\<rparr>) = hView s"
  "hView (s\<lparr>inflight := x5\<rparr>) = hView s"
  "hView (s\<lparr>generatorReturned := x6\<rparr>) = hView s"
  "hView (s\<lparr>controller := x7\<rparr>) = hView s"
  "hView (s\<lparr>listening := x8\<rparr>) = hView s"
  "hView (s\<lparr>downloading := x9\<rparr>) = hView s"
  "hView (s\<lparr>tasks := y1\<rparr>) = hView s"
  "hView (s\<lparr>abortCalls := y4\<rparr>) = hView s"
  "hView (s\<lparr>artworkCount := y5\<rparr>) = hView s"
  "hView (s\<lparr>successd := y6\<rparr>) = hView s"
  "hView (s\<lparr>failed := y7\<rparr>) = hView s"
  "hView (s\<lparr>excluded := y8\<rparr>) = hView s"
  "hView (s\<lparr>waitUntilDownloadComplete := y9\<rparr>) = hView s"
  "hView (s\<lparr>resolvedAt := z1\<rparr>) = hView s"
  by (simp_all add: hView_def)

lemma hView_writeLog [simp]: "hView (writeLog item s) = hView s"
  by (simp add: writeLog_def)

lemma hView_sleep [simp]: "hView (sleep ms s) = hView s"
  by (simp add: sleep_def)

lemma hView_subscribe [simp]: "hView (subscribeCompleted s) = hView s"
  by (simp add: subscribeCompleted_def downloadCompleted_def split: option.splits promise.splits)

lemma hView_stores [simp]:
  "hView (setArtworkCount n s) = hView s"
  "hView (addSuccessd i s) = hView s"
  "hView (addFailed item s) = hView s"
  "hView (addFailedAll items s) = hView s"
  "hView (addExcluded i s) = hView s"
  "hView (addExcludedAll ids s) = hView s"
  by (simp_all add: setArtworkCount_def addSuccessd_def addFailed_def addFailedAll_def
      addExcluded_def addExcludedAll_def logFail_def split: list.splits reason.splits)

lemma hView_controllerAbort [simp]: "hView (controllerAbort r s) = hView s"
  by (simp add: controllerAbort_def abortListener_def downloadAbort_def Let_def
      split: option.splits signal.splits promise.splits)

lemma hView_catchBlock [simp]: "hView (catchBlock g r s) = hView s"
  by (cases r) (simp_all add: catchBlock_def Let_def)

lemma hView_failedHanlder [simp]: "hView (failedHanlder i r s) = hView s"
  by (simp add: failedHanlder_def Let_def)

lemma hView_forLoop [simp]: "hView (forLoop rest s) = hView s"
  by (cases rest) simp_all

lemma hView_onBatch [simp]: "hView (onBatch b s) = hView s"
  by (simp add: onBatch_def Let_def)

lemma hView_misc [simp]:
  "hView (removeTask i s) = hView s"
  "hView (settle h s) = hView s"
  "hView (handleSucccess i s) = hView s"
  "hView (abort s) = hView s"
  "hView (complete s) = hView s"
  by (simp_all add: removeTask_def settle_def handleSucccess_def abort_def complete_def)

lemma hView_afterParseFail [simp]: "hView (afterParseFail r i rest s) = hView s"
  by (simp add: afterParseFail_def Let_def)

lemma lastHandles_dispatch: "lastHandles s \<Longrightarrow> lastHandles (dispatch rnd i rest s)"
proof -
  assume a: "lastHandles s"
  let ?n = "length (dispatched s)" and ?k = "length (dlPromise s)"
  have "length (dlPromise s) = length [?n - ?k ..< ?n]"
    using a by (simp add: lastHandles_def)
  then have k: "?k \<le> ?n" by simp
  have "dlPromise s @ [?n] = [Suc ?n - Suc ?k ..< Suc ?n]"
    using a k by (simp add: lastHandles_def)
  then show ?thesis
    by (simp add: dispatch_def Let_def lastHandles_def sleep_def writeLog_def)
qed

lemma lastHandles_empty: "lastHandles (s\<lparr>dlPromise := []\<rparr>)"
  by (simp add: lastHandles_def)

lemma lastHandles_resume: "lastHandles s \<Longrightarrow> resume s = Some s' \<Longrightarrow> lastHandles s'"
proof (cases "pc s")
  case (AwaitGroup rest)
  then show "lastHandles s \<Longrightarrow> resume s = Some s' \<Longrightarrow> lastHandles s'"
    using lh_cong [of "forLoop rest (s\<lparr>dlPromise := []\<rparr>)" "s\<lparr>dlPromise := []\<rparr>"]
      lastHandles_empty [of s]
    by (auto simp add: resume_def)
next
  case (AwaitDelay rest)
  then show "lastHandles s \<Longrightarrow> resume s = Some s' \<Longrightarrow> lastHandles s'"
    using lh_cong [of "forLoop rest s" s] by (auto simp add: resume_def)
next
  case AwaitEmptySleep
  then show "lastHandles s \<Longrightarrow> resume s = Some s' \<Longrightarrow> lastHandles s'"
    using lh_cong [of "s\<lparr>pc := AwaitNext\<rparr>" s] by (auto simp add: resume_def)
next
  case (AwaitCooldown i rest)
  then show "lastHandles s \<Longrightarrow> resume s = Some s' \<Longrightarrow> lastHandles s'"
    using lh_cong [of "s\<lparr>status429 := False, pc := AwaitParse i rest\<rparr>" s]
    by (auto simp add: resume_def)
qed (auto simp add: resume_def)

lemma lastHandles_step: "lastHandles s \<Longrightarrow> step cfg e s = Some s' \<Longrightarrow> lastHandles s'"
proof (cases e)
  case (GenYield b)
  then show "lastHandles s \<Longrightarrow> step cfg e s = Some s' \<Longrightarrow> lastHandles s'"
    using lh_cong [of "onBatch b s" s] by (auto simp add: step_def split: pc.splits)
next
  case GenDone
  then show "lastHandles s \<Longrightarrow> step cfg e s = Some s' \<Longrightarrow> lastHandles s'"
    using lh_cong [of "s\<lparr>pc := AwaitReturn\<rparr>" s] by (auto simp add: step_def split: pc.splits)
next
  case (GenThrow r)
  then show "lastHandles s \<Longrightarrow> step cfg e s = Some s' \<Longrightarrow> lastHandles s'"
    using lh_cong [of "catchBlock True r s" s] by (auto simp add: step_def split: pc.splits)
next
  case (ParseOk m rnd)
  then show "lastHandles s \<Longrightarrow> step cfg e s = Some s' \<Longrightarrow> lastHandles s'"
    using lh_cong [of "catchBlock True r s" s for r]
      lh_cong [of "s\<lparr>pc := AwaitValidity i m rest\<rparr>" s for i rest]
    by (auto simp add: step_def afterParseOk_def lastHandles_dispatch split: pc.splits)
next
  case (ParseFail r)
  then show "lastHandles s \<Longrightarrow> step cfg e s = Some s' \<Longrightarrow> lastHandles s'"
    using lh_cong [of "afterParseFail r i rest s" s for i rest]
    by (auto simp add: step_def split: pc.splits)
next
  case (ValidityChecked rnd)
  then show "lastHandles s \<Longrightarrow> step cfg e s = Some s' \<Longrightarrow> lastHandles s'"
    using lh_cong [of "forLoop rest (addExcluded i s)" s for rest i]
    by (auto simp add: step_def afterValidity_def lastHandles_dispatch split: pc.splits)
next
  case TimerFired
  then show "lastHandles s \<Longrightarrow> step cfg e s = Some s' \<Longrightarrow> lastHandles s'"
    using lastHandles_resume [of s s'] by (auto simp add: step_def split: if_splits)
next
  case GroupSettled
  then show "lastHandles s \<Longrightarrow> step cfg e s = Some s' \<Longrightarrow> lastHandles s'"
    using lastHandles_resume [of s s'] by (auto simp add: step_def split: pc.splits if_splits)
next
  case CompletionObserved
  then show "lastHandles s \<Longrightarrow> step cfg e s = Some s' \<Longrightarrow> lastHandles s'"
    using lastHandles_resume [of s s'] lh_cong [of "catchBlock True r s" s for r]
      lh_cong [of "s\<lparr>pc := AwaitReturn\<rparr>" s] lh_cong [of "complete s" s]
    by (auto simp add: step_def split: option.splits promise.splits pc.splits if_splits)
next
  case (DownloadOk h)
  then show "lastHandles s \<Longrightarrow> step cfg e s = Some s' \<Longrightarrow> lastHandles s'"
    using lh_cong [of "removeTask i (handleSucccess i (settle h s))" s for i]
    by (auto simp add: step_def split: option.splits)
next
  case (DownloadFail h r)
  then show "lastHandles s \<Longrightarrow> step cfg e s = Some s' \<Longrightarrow> lastHandles s'"
    using lh_cong [of "removeTask i (failedHanlder i r (settle h s))" s for i]
    by (auto simp add: step_def split: option.splits)
next
  case AbortRequested
  then show "lastHandles s \<Longrightarrow> step cfg e s = Some s' \<Longrightarrow> lastHandles s'"
    using lh_cong [of "abort s" s] by (auto simp add: step_def)
qed

lemma lastHandles_run: "lastHandles s \<Longrightarrow> run cfg evs s = Some s' \<Longrightarrow> lastHandles s'"
  by (induction evs arbitrary: s) (auto split: option.splits dest: lastHandles_step)

lemma lastHandles_start: "noRunYet s0 \<Longrightarrow> lastHandles (startRun cfg fnId s0)"
proof -
  assume a: "noRunYet s0"
  then have d: "\<not> downloading s0" by (simp add: noRunYet_def)
  have "hView (startRun cfg fnId s0) = ([], [])"
    using startRun_cases [OF d, of cfg fnId] a
    by (auto simp add: noRunYet_def dispatchDownload_def reset_def hView_def writeLog_def
        catchBlock_def Let_def controllerAbort_def signalAborted_def)
  then show ?thesis by (simp add: hView_def lastHandles_def)
qed

text \<open>
  C2.  In every state a first run can reach, at most \<open>THRESHOLD = 5\<close> downloads have been
  dispatched since the last group wait, they are the most recently dispatched ones, and
  they are exactly 5 when the run is suspended in the group wait; and from the group wait,
  as long as none of these 5 downloads has settled and the future of the run is pending, no
  step dispatches a download or leaves the wait.
\<close>

theorem dispatch_groups_of_five:
  assumes "noRunYet s0" and "run cfg evs (startRun cfg fnId s0) = Some s"
  shows "length (dlPromise s) \<le> THRESHOLD
       \<and> dlPromise s = [length (dispatched s) - length (dlPromise s) ..< length (dispatched s)]
       \<and> (\<forall>rest. pc s = AwaitGroup rest \<longrightarrow> length (dlPromise s) = THRESHOLD)
       \<and> (\<forall>rest e s'. pc s = AwaitGroup rest \<and> \<not> groupSettled s \<and>
              waitUntilDownloadComplete s = Some Pending \<and> step cfg e s = Some s' \<longrightarrow>
              dispatched s' = dispatched s \<and> pc s' = AwaitGroup rest)"
proof (intro conjI allI impI)
  have g: "groupInv s"
    using groupInv_run [OF groupInv_start [OF assms(1)] assms(2)] .
  show "length (dlPromise s) \<le> THRESHOLD"
    using g by (rule groupInv_le)
  show "dlPromise s = [length (dispatched s) - length (dlPromise s) ..< length (dispatched s)]"
    using lastHandles_run [OF lastHandles_start [OF assms(1)] assms(2)]
    by (simp add: lastHandles_def)
  show "length (dlPromise s) = THRESHOLD" if "pc s = AwaitGroup rest" for rest
    using g that by (simp add: groupInv_def)
  show "dispatched s' = dispatched s" and "pc s' = AwaitGroup rest"
    if "pc s = AwaitGroup rest \<and> \<not> groupSettled s \<and>
        waitUntilDownloadComplete s = Some Pending \<and> step cfg e s = Some s'" for rest e s'
    using that group_wait_holds [of s rest cfg e s'] by simp_all
qed

theorem dispatch_groups_of_five_witness:
  "noRunYet (initialState :: unit BatchState) \<and>
   (case run exampleConfig (take 10 sixInFlightRun) (startRun exampleConfig ''g'' initialState) of
      None \<Rightarrow> False
    | Some s \<Rightarrow>
        pc s = AwaitGroup [''z'', ''q''] \<and> length (dlPromise s) = THRESHOLD \<and>
        dlPromise s = [0, 1, 2, 3, 4] \<and>
        \<not> groupSettled s \<and> waitUntilDownloadComplete s = Some Pending \<and>
        (case step exampleConfig (DownloadOk 4) s of
           None \<Rightarrow> False
         | Some s' \<Rightarrow> dispatched s' = dispatched s \<and> pc s' = AwaitGroup [''z'', ''q'']))"
proof -
  have e: "case run exampleConfig (take 10 sixInFlightRun)
                  (startRun exampleConfig ''g'' initialState) of
             None \<Rightarrow> False
           | Some s \<Rightarrow>
               pc s = AwaitGroup [''z'', ''q''] \<and> \<not> groupSettled s \<and>
               dlPromise s = [0, 1, 2, 3, 4] \<and>
               waitUntilDownloadComplete s = Some Pending \<and>
               (case step exampleConfig (DownloadOk 4) s of None \<Rightarrow> False | Some s' \<Rightarrow> True)"
    by code_simp
  then obtain s s'
    where r: "run exampleConfig (take 10 sixInFlightRun)
                (startRun exampleConfig ''g'' initialState) = Some s"
      and f: "pc s = AwaitGroup [''z'', ''q'']" "\<not> groupSettled s"
        "waitUntilDownloadComplete s = Some Pending" "dlPromise s = [0, 1, 2, 3, 4]"
      and st: "step exampleConfig (DownloadOk 4) s = Some s'"
    by (auto split: option.splits)
  have n: "noRunYet (initialState :: unit BatchState)"
    by (simp add: noRunYet_def initialState_def)
  have t1: "length (dlPromise s) = THRESHOLD"
    using dispatch_groups_of_five [OF n r] f(1) by blast
  have t2: "dispatched s' = dispatched s \<and> pc s' = AwaitGroup [''z'', ''q'']"
    using dispatch_groups_of_five [OF n r] f st by blast
  show ?thesis
    using n r f st t1 t2 by simp
qed

text \<open>
  After \<open>sixInFlightRun\<close> six downloads are pending at once (those of all ids but the first), in a
  run that is neither completed nor cancelled.
\<close>

theorem six_downloads_in_flight:
  "(case run exampleConfig sixInFlightRun exampleStart of
      None \<Rightarrow> False
    | Some s \<Rightarrow>
        map snd (inflight s) = [''v'', ''w'', ''x'', ''y'', ''z'', ''q''] \<and>
        length (inflight s) = 6 \<and> THRESHOLD = 5 \<and>
        waitUntilDownloadComplete s = Some Pending \<and> \<not> signalAborted s)"
  by code_simp


section \<open>Cancellation: properties\<close>

lemma taskId_differs: "generateTaskID r i \<noteq> i"
  by (simp add: generateTaskID_def)

text \<open>
  C3.  In \<open>abortAfterSettleRun\<close> the download of \<open>a\<close> has succeeded and only that of \<open>b\<close> is
  pending when the user aborts; the abort callback is called once, with the task ids of
  both: \<open>removeTask\<close> compared the stored task id \<open>a_r0\<close> with the artwork id \<open>a\<close> and removed
  nothing.
\<close>

theorem abort_callback_gets_settled_task:
  "(case run exampleConfig abortAfterSettleRun exampleStart of
      None \<Rightarrow> False
    | Some s \<Rightarrow>
        successd s = [''a''] \<and> inflight s = [(1, ''b'')] \<and>
        dispatched s = [(''a'', ''a_r0''), (''b'', ''b_r1'')] \<and>
        abortCalls s = [[''a_r0'', ''b_r1'']])"
  by code_simp


section \<open>The run: rate-limit cooldown\<close>


lemma cd_subscribe [simp]:
  "failed (subscribeCompleted s) = failed s"
  "sleeps (subscribeCompleted s) = sleeps s"
  "status429 (subscribeCompleted s) = status429 s"
  by (simp_all add: subscribeCompleted_def downloadCompleted_def split: option.splits promise.splits)

lemma cd_fields_setArtworkCount [simp]:
  "failed (setArtworkCount n s) = failed s"
  "sleeps (setArtworkCount n s) = sleeps s"
  "status429 (setArtworkCount n s) = status429 s"
  by (simp_all add: setArtworkCount_def)

lemma cd_fields_addSuccessd [simp]:
  "failed (addSuccessd i s) = failed s"
  "sleeps (addSuccessd i s) = sleeps s"
  "status429 (addSuccessd i s) = status429 s"
  by (simp_all add: addSuccessd_def writeLog_def)

lemma cd_fields_addExcluded [simp]:
  "failed (addExcluded i s) = failed s"
  "sleeps (addExcluded i s) = sleeps s"
  "status429 (addExcluded i s) = status429 s"
  "failed (addExcludedAll ids s) = failed s"
  "sleeps (addExcludedAll ids s) = sleeps s"
  "status429 (addExcludedAll ids s) = status429 s"
  by (simp_all add: addExcluded_def addExcludedAll_def writeLog_def)

lemma cd_fields_addFailed [simp]:
  "failed (addFailed item s) = failed s @ [item]"
  "sleeps (addFailed item s) = sleeps s"
  "status429 (addFailed item s) = status429 s"
  "failed (addFailedAll items s) = failed s @ items"
  "sleeps (addFailedAll items s) = sleeps s"
  "status429 (addFailedAll items s) = status429 s"
  by (simp_all add: addFailed_def addFailedAll_def writeLog_def logFail_def
      split: reason.splits list.splits)

lemma cd_fields_controllerAbort [simp]:
  "failed (controllerAbort r s) = failed s"
  "sleeps (controllerAbort r s) = sleeps s"
  "status429 (controllerAbort r s) = status429 s"
  by (simp_all add: controllerAbort_def abortListener_def downloadAbort_def Let_def
      split: option.splits signal.splits promise.splits)

lemma cd_fields_catchBlock [simp]:
  "failed (catchBlock g r s) = failed s"
  "sleeps (catchBlock g r s) = sleeps s"
  "status429 (catchBlock g r s) = status429 s"
  by (cases r; simp add: catchBlock_def Let_def writeLog_def)+






lemma masked_not_429:
  "filter (\<lambda>item. is429 (reason item)) (map (\<lambda>i. \<lparr>failedId = i, reason = ReasonString ''Masked.''\<rparr>) ids) = []"
  by (induction ids) simp_all


lemma cdView_stores [simp]:
  "cdView (setArtworkCount n s) = cdView s"
  "cdView (addSuccessd i s) = cdView s"
  "cdView (addExcluded i s) = cdView s"
  "cdView (addExcludedAll ids s) = cdView s"
  "cdView (addFailedAll (map (\<lambda>i. \<lparr>failedId = i, reason = ReasonString ''Masked.''\<rparr>) ids) s)
     = cdView s"
  by (simp_all add: cdView_def signals_def masked_not_429)

lemma cdView_misc [simp]:
  "cdView (removeTask i s) = cdView s"
  "cdView (settle h s) = cdView s"
  "cdView (handleSucccess i s) = cdView s"
  "cdView (abort s) = cdView s"
  "cdView (s\<lparr>dlPromise := x\<rparr>) = cdView s"
  by (simp_all add: cdView_def signals_def removeTask_def settle_def handleSucccess_def abort_def)













end
